theory Spec2Isabelle
  imports Complex_Main
begin

section \<open>Python values, exceptions and arithmetic\<close>

text \<open>
  Exceptions are values: the class of the exception and \<^verbatim>\<open>str(e)\<close>. The classes named
  are the ones the source's \<^verbatim>\<open>except\<close> clauses tell apart; every other subclass of
  \<^verbatim>\<open>Exception\<close> is \<open>OtherException\<close> with its class name. The interpreter's
  limit on the digits of a conversion between int and decimal text is modelled where the
  source converts (\<open>str_int\<close> below); its limits on recursion depth and memory are not.
\<close>

datatype exc_class =
  ZeroDivisionError | ValueError | SyntaxError | OverflowError
  | Unauthenticated | ResourceExhausted | OtherException string

datatype pyexc = PyExc (exc_class: exc_class) (exc_msg: string)

text \<open>
  The numbers \<^verbatim>\<open>ast.Num\<close> covers: Python's unbounded \<^verbatim>\<open>int\<close>, \<^verbatim>\<open>float\<close> and
  \<^verbatim>\<open>complex\<close>. Integers are exact. Floating-point and complex values are kept abstract
  (the type parameter \<open>'x\<close>): their arithmetic belongs to the Python runtime and is an
  input of the model, the record \<open>arith\<close> below.
\<close>

datatype 'x pynum = PyInt int | PyFloat 'x | PyComplex 'x

text \<open>The operator classes of Python's \<^verbatim>\<open>ast\<close> module (\<^verbatim>\<open>operator\<close> and \<^verbatim>\<open>unaryop\<close>).\<close>

datatype operator =
  Add | Sub | Mult | MatMult | Div | Mod | Pow_op | LShift | RShift
  | BitOr | BitXor | BitAnd | FloorDiv

datatype unaryop = Invert | Not_op | UAdd | USub

record 'x arith =
  fl_of_int :: "int \<Rightarrow> pyexc + 'x"
  fl_int_truediv :: "int \<Rightarrow> int \<Rightarrow> pyexc + 'x"
  fl_is_zero :: "'x \<Rightarrow> bool"
  fl_add :: "'x \<Rightarrow> 'x \<Rightarrow> 'x"
  fl_sub :: "'x \<Rightarrow> 'x \<Rightarrow> 'x"
  fl_mul :: "'x \<Rightarrow> 'x \<Rightarrow> 'x"
  fl_div :: "'x \<Rightarrow> 'x \<Rightarrow> 'x"
  fl_neg :: "'x \<Rightarrow> 'x"
  fl_pow :: "'x \<Rightarrow> 'x \<Rightarrow> pyexc + 'x pynum"
  fl_literal :: "string \<Rightarrow> 'x"
  fl_repr :: "'x \<Rightarrow> string"
  cx_binop :: "operator \<Rightarrow> 'x pynum \<Rightarrow> 'x pynum \<Rightarrow> pyexc + 'x pynum"
  cx_neg :: "'x \<Rightarrow> 'x"
  cx_repr :: "'x \<Rightarrow> string"

text \<open>
  The fields: \<open>fl_of_int\<close> converts an int operand to float (OverflowError when it is too
  large); \<open>fl_int_truediv a b\<close> is \<^verbatim>\<open>a / b\<close> on ints with \<^verbatim>\<open>b != 0\<close> (the rounded
  quotient, or OverflowError); \<open>fl_add\<close> to \<open>fl_neg\<close> are the IEEE operations, which never
  raise; \<open>fl_pow\<close> is float power (it can raise ZeroDivisionError or OverflowError and can
  return a complex number); \<open>fl_literal\<close> reads a float literal; \<open>fl_repr\<close> prints a float;
  \<open>cx_binop\<close>, \<open>cx_neg\<close> and \<open>cx_repr\<close> are the operations with a complex operand.
\<close>

fun is_complex :: "'x pynum \<Rightarrow> bool" where
  "is_complex (PyComplex z) = True"
| "is_complex v = False"

fun to_float :: "'x arith \<Rightarrow> 'x pynum \<Rightarrow> pyexc + 'x" where
  "to_float fl (PyInt i) = fl_of_int fl i"
| "to_float fl (PyFloat x) = Inr x"
| "to_float fl (PyComplex z) =
     Inl (PyExc (OtherException ''TypeError'') ''must be real number, not complex'')"

text \<open>A float operation on two real operands: both are converted, the left one first.\<close>

definition float_binop ::
  "'x arith \<Rightarrow> ('x \<Rightarrow> 'x \<Rightarrow> pyexc + 'x pynum) \<Rightarrow> 'x pynum \<Rightarrow> 'x pynum \<Rightarrow> pyexc + 'x pynum" where
  "float_binop fl f l r =
     (case to_float fl l of
        Inl e \<Rightarrow> Inl e
      | Inr a \<Rightarrow> (case to_float fl r of Inl e \<Rightarrow> Inl e | Inr b \<Rightarrow> f a b))"

text \<open>\<^verbatim>\<open>operator.add\<close>, \<^verbatim>\<open>operator.sub\<close>, \<^verbatim>\<open>operator.mul\<close> on numbers.\<close>

fun op_add :: "'x arith \<Rightarrow> 'x pynum \<Rightarrow> 'x pynum \<Rightarrow> pyexc + 'x pynum" where
  "op_add fl (PyInt a) (PyInt b) = Inr (PyInt (a + b))"
| "op_add fl l r =
     (if is_complex l \<or> is_complex r then cx_binop fl Add l r
      else float_binop fl (\<lambda>a b. Inr (PyFloat (fl_add fl a b))) l r)"

fun op_sub :: "'x arith \<Rightarrow> 'x pynum \<Rightarrow> 'x pynum \<Rightarrow> pyexc + 'x pynum" where
  "op_sub fl (PyInt a) (PyInt b) = Inr (PyInt (a - b))"
| "op_sub fl l r =
     (if is_complex l \<or> is_complex r then cx_binop fl Sub l r
      else float_binop fl (\<lambda>a b. Inr (PyFloat (fl_sub fl a b))) l r)"

fun op_mul :: "'x arith \<Rightarrow> 'x pynum \<Rightarrow> 'x pynum \<Rightarrow> pyexc + 'x pynum" where
  "op_mul fl (PyInt a) (PyInt b) = Inr (PyInt (a * b))"
| "op_mul fl l r =
     (if is_complex l \<or> is_complex r then cx_binop fl Mult l r
      else float_binop fl (\<lambda>a b. Inr (PyFloat (fl_mul fl a b))) l r)"

text \<open>
  \<^verbatim>\<open>operator.truediv\<close>: true division. On two ints a zero divisor raises
  ZeroDivisionError, otherwise the result is a float. With a float operand both operands
  are converted first, then a zero divisor raises ZeroDivisionError.
\<close>

fun op_truediv :: "'x arith \<Rightarrow> 'x pynum \<Rightarrow> 'x pynum \<Rightarrow> pyexc + 'x pynum" where
  "op_truediv fl (PyInt a) (PyInt b) =
     (if b = 0 then Inl (PyExc ZeroDivisionError ''division by zero'')
      else (case fl_int_truediv fl a b of Inl e \<Rightarrow> Inl e | Inr q \<Rightarrow> Inr (PyFloat q)))"
| "op_truediv fl l r =
     (if is_complex l \<or> is_complex r then cx_binop fl Div l r
      else float_binop fl
             (\<lambda>a b. if fl_is_zero fl b
                    then Inl (PyExc ZeroDivisionError ''float division by zero'')
                    else Inr (PyFloat (fl_div fl a b))) l r)"

text \<open>
  \<^verbatim>\<open>operator.pow\<close>: an int to a non-negative int power is an exact int; an int to a
  negative int power is computed as a float power.
\<close>

fun op_pow :: "'x arith \<Rightarrow> 'x pynum \<Rightarrow> 'x pynum \<Rightarrow> pyexc + 'x pynum" where
  "op_pow fl (PyInt a) (PyInt b) =
     (if 0 \<le> b then Inr (PyInt (a ^ nat b))
      else float_binop fl (fl_pow fl) (PyInt a) (PyInt b))"
| "op_pow fl l r =
     (if is_complex l \<or> is_complex r then cx_binop fl Pow_op l r
      else float_binop fl (fl_pow fl) l r)"

text \<open>\<^verbatim>\<open>operator.neg\<close>.\<close>

fun op_neg :: "'x arith \<Rightarrow> 'x pynum \<Rightarrow> pyexc + 'x pynum" where
  "op_neg fl (PyInt a) = Inr (PyInt (- a))"
| "op_neg fl (PyFloat x) = Inr (PyFloat (fl_neg fl x))"
| "op_neg fl (PyComplex z) = Inr (PyComplex (cx_neg fl z))"

section \<open>The calculator (src/tools.py)\<close>

subsection \<open>Expression trees\<close>

text \<open>
  The expression nodes of Python's \<^verbatim>\<open>ast\<close>. A \<^verbatim>\<open>Constant\<close> holds a number, a string,
  bytes, a boolean, \<^verbatim>\<open>None\<close> or \<^verbatim>\<open>...\<close>; \<^verbatim>\<open>isinstance(node, ast.Num)\<close> holds for
  a \<^verbatim>\<open>Constant\<close> whose value is an int, float or complex and not a bool. The node
  classes that \<^verbatim>\<open>_safe_eval\<close> does not look into (\<^verbatim>\<open>Tuple\<close>, \<^verbatim>\<open>Compare\<close>,
  \<^verbatim>\<open>Lambda\<close>, \<^verbatim>\<open>Starred\<close>, ...) are \<open>OtherExpr\<close> with the class name and the
  sub-expressions.
\<close>

datatype 'x const_value =
  CNum "'x pynum" | CStr string | CBytes string | CBool bool | CNone | CEllipsis

datatype 'x expr =
  Constant "'x const_value"
  | BinOp "'x expr" operator "'x expr"
  | UnaryOp unaryop "'x expr"
  | Name string
  | Call "'x expr" "'x expr list" "(string option \<times> 'x expr) list"
  | Attribute "'x expr" string
  | OtherExpr string "'x expr list"

fun node_class :: "'x expr \<Rightarrow> string" where
  "node_class (Constant c) = ''Constant''"
| "node_class (BinOp l op r) = ''BinOp''"
| "node_class (UnaryOp op e) = ''UnaryOp''"
| "node_class (Name x) = ''Name''"
| "node_class (Call f args kws) = ''Call''"
| "node_class (Attribute e a) = ''Attribute''"
| "node_class (OtherExpr c es) = c"

fun operator_class :: "operator \<Rightarrow> string" where
  "operator_class Add = ''Add''"
| "operator_class Sub = ''Sub''"
| "operator_class Mult = ''Mult''"
| "operator_class MatMult = ''MatMult''"
| "operator_class Div = ''Div''"
| "operator_class Mod = ''Mod''"
| "operator_class Pow_op = ''Pow''"
| "operator_class LShift = ''LShift''"
| "operator_class RShift = ''RShift''"
| "operator_class BitOr = ''BitOr''"
| "operator_class BitXor = ''BitXor''"
| "operator_class BitAnd = ''BitAnd''"
| "operator_class FloorDiv = ''FloorDiv''"

fun unaryop_class :: "unaryop \<Rightarrow> string" where
  "unaryop_class Invert = ''Invert''"
| "unaryop_class Not_op = ''Not''"
| "unaryop_class UAdd = ''UAdd''"
| "unaryop_class USub = ''USub''"

text \<open>How an f-string prints a class of the \<^verbatim>\<open>ast\<close> module: \<^verbatim>\<open><class 'ast.Add'>\<close>.\<close>

definition class_repr :: "string \<Rightarrow> string" where
  "class_repr c = ''<class '' @ [CHR 0x27] @ ''ast.'' @ c @ [CHR 0x27] @ ''>''"

subsection \<open>The table of operators and the evaluator\<close>

text \<open>
  \<^verbatim>\<open>
  OPERATORS = {ast.Add: operator.add, ast.Sub: operator.sub, ast.Mult: operator.mul,
               ast.Div: operator.truediv, ast.Pow: operator.pow, ast.USub: operator.neg}
  \<close>
  \<^verbatim>\<open>OPERATORS.get(type(node.op))\<close> is looked up with the class of a binary operator
  for a \<^verbatim>\<open>BinOp\<close> and with the class of a unary operator for a \<^verbatim>\<open>UnaryOp\<close>; the two
  functions below are the dictionary on the two kinds of key.
\<close>

fun OPERATORS_binary ::
  "'x arith \<Rightarrow> operator \<Rightarrow> ('x pynum \<Rightarrow> 'x pynum \<Rightarrow> pyexc + 'x pynum) option" where
  "OPERATORS_binary fl Add = Some (op_add fl)"
| "OPERATORS_binary fl Sub = Some (op_sub fl)"
| "OPERATORS_binary fl Mult = Some (op_mul fl)"
| "OPERATORS_binary fl Div = Some (op_truediv fl)"
| "OPERATORS_binary fl Pow_op = Some (op_pow fl)"
| "OPERATORS_binary fl op = None"

fun OPERATORS_unary :: "'x arith \<Rightarrow> unaryop \<Rightarrow> ('x pynum \<Rightarrow> pyexc + 'x pynum) option" where
  "OPERATORS_unary fl USub = Some (op_neg fl)"
| "OPERATORS_unary fl op = None"

text \<open>
  \<^verbatim>\<open>
  def _safe_eval(self, node):
      if isinstance(node, ast.Num):
          return node.n
      elif isinstance(node, ast.BinOp):
          left = self._safe_eval(node.left)
          right = self._safe_eval(node.right)
          op = self.OPERATORS.get(type(node.op))
          if op is None:
              raise ValueError(f"Unsupported operation: {type(node.op)}")
          return op(left, right)
      elif isinstance(node, ast.UnaryOp):
          operand = self._safe_eval(node.operand)
          op = self.OPERATORS.get(type(node.op))
          if op is None:
              raise ValueError(f"Unsupported operation: {type(node.op)}")
          return op(operand)
      else:
          raise ValueError(f"Unsupported expression: {type(node)}")
  \<close>
  A raised exception is the result \<open>Inl\<close>; it ends the evaluation where it is raised.
\<close>

fun safe_eval :: "'x arith \<Rightarrow> 'x expr \<Rightarrow> pyexc + 'x pynum" where
  "safe_eval fl (Constant (CNum n)) = Inr n"
| "safe_eval fl (BinOp l op r) =
     (case safe_eval fl l of
        Inl e \<Rightarrow> Inl e
      | Inr left \<Rightarrow>
          (case safe_eval fl r of
             Inl e \<Rightarrow> Inl e
           | Inr right \<Rightarrow>
               (case OPERATORS_binary fl op of
                  None \<Rightarrow> Inl (PyExc ValueError
                                 (''Unsupported operation: '' @ class_repr (operator_class op)))
                | Some f \<Rightarrow> f left right)))"
| "safe_eval fl (UnaryOp op node) =
     (case safe_eval fl node of
        Inl e \<Rightarrow> Inl e
      | Inr operand \<Rightarrow>
          (case OPERATORS_unary fl op of
             None \<Rightarrow> Inl (PyExc ValueError
                            (''Unsupported operation: '' @ class_repr (unaryop_class op)))
           | Some f \<Rightarrow> f operand))"
| "safe_eval fl node =
     Inl (PyExc ValueError (''Unsupported expression: '' @ class_repr (node_class node)))"

subsection \<open>Strings\<close>

text \<open>
  A \<open>string\<close> is a list of 8-bit characters, read as the code points U+0000 to U+00FF;
  text with other code points is outside the model. \<open>is_space\<close> is the whitespace of
  \<^verbatim>\<open>str.strip()\<close> and of the regular expression \<^verbatim>\<open>\s\<close> on these code points;
  \<open>lower\<close> is \<^verbatim>\<open>str.lower()\<close> on them.
\<close>

definition is_space :: "char \<Rightarrow> bool" where
  "is_space c = (of_char c \<in> {9, 10, 11, 12, 13, 28, 29, 30, 31, 32, 133, 160 :: nat})"

definition lower_char :: "char \<Rightarrow> char" where
  "lower_char c =
     (let n = (of_char c :: nat)
      in if (65 \<le> n \<and> n \<le> 90) \<or> (192 \<le> n \<and> n \<le> 222 \<and> n \<noteq> 215)
         then char_of (n + 32) else c)"

definition lower :: "string \<Rightarrow> string" where
  "lower s = map lower_char s"

definition strip :: "string \<Rightarrow> string" where
  "strip s = rev (dropWhile is_space (rev (dropWhile is_space s)))"

text \<open>\<^verbatim>\<open>expression.replace('^', '**')\<close>.\<close>

definition replace_caret :: "string \<Rightarrow> string" where
  "replace_caret s = concat (map (\<lambda>c. if c = CHR ''^'' then ''**'' else [c]) s)"

subsection \<open>calculate\<close>

record 'x calc_result =
  success :: bool
  result :: "'x pynum option"
  error :: "string option"

text \<open>
  The two \<^verbatim>\<open>except\<close> clauses of \<^verbatim>\<open>calculate\<close>: \<^verbatim>\<open>except ZeroDivisionError\<close>
  first, then \<^verbatim>\<open>except Exception as e\<close>.
\<close>

definition calculate_except :: "pyexc \<Rightarrow> 'x calc_result" where
  "calculate_except e =
     (if exc_class e = ZeroDivisionError
      then \<lparr>success = False, result = None, error = Some ''Cannot divide by zero, mate!''\<rparr>
      else \<lparr>success = False, result = None,
            error = Some (''Invalid expression: '' @ exc_msg e)\<rparr>)"

text \<open>
  \<^verbatim>\<open>
  def calculate(self, expression):
      try:
          expression = expression.strip()
          tree = ast.parse(expression, mode='eval')
          result = self._safe_eval(tree.body)
          return {'success': True, 'result': result, 'error': None}
      except ZeroDivisionError:
          return {'success': False, 'result': None, 'error': "Cannot divide by zero, mate!"}
      except Exception as e:
          return {'success': False, 'result': None, 'error': f"Invalid expression: {str(e)}"}
  \<close>
  \<^verbatim>\<open>ast.parse\<close> is Python's parser, not code of the repository: it is the parameter
  \<open>ast_parse\<close>, which gives the body of the parsed \<^verbatim>\<open>Expression\<close> or the exception
  raised.
\<close>

definition calculate ::
  "(string \<Rightarrow> pyexc + 'x expr) \<Rightarrow> 'x arith \<Rightarrow> string \<Rightarrow> 'x calc_result" where
  "calculate ast_parse fl expression =
     (case ast_parse (strip expression) of
        Inl e \<Rightarrow> calculate_except e
      | Inr body \<Rightarrow>
          (case safe_eval fl body of
             Inl e \<Rightarrow> calculate_except e
           | Inr v \<Rightarrow> \<lparr>success = True, result = Some v, error = None\<rparr>))"

subsection \<open>The regular expressions of extract_and_calculate\<close>

text \<open>
  The three patterns use literal characters, \<^verbatim>\<open>\s+\<close> and one group
  \<^verbatim>\<open>([0-9+\-*/().^ ]+)\<close>. \<open>match_here\<close> matches a pattern at the start of a string
  the way Python's \<^verbatim>\<open>re\<close> does: a \<^verbatim>\<open>+\<close> takes the longest run first and gives
  characters back one by one while the rest of the pattern fails. The result is the text
  of group 1.
\<close>

datatype char_class = Whitespace | ExprChar

datatype rx_item = Lit char | Plus char_class | GroupPlus char_class

definition in_class :: "char_class \<Rightarrow> char \<Rightarrow> bool" where
  "in_class k c =
     (case k of
        Whitespace \<Rightarrow> is_space c
      | ExprChar \<Rightarrow> c \<in> set ''0123456789+-*/().^ '')"

fun match_here :: "rx_item list \<Rightarrow> string \<Rightarrow> string \<Rightarrow> string option"
  and match_plus :: "bool \<Rightarrow> rx_item list \<Rightarrow> string \<Rightarrow> string \<Rightarrow> nat \<Rightarrow> string option" where
  "match_here [] s g = Some g"
| "match_here (Lit c # items) [] g = None"
| "match_here (Lit c # items) (x # xs) g = (if x = c then match_here items xs g else None)"
| "match_here (Plus k # items) s g =
     match_plus False items s g (length (takeWhile (in_class k) s))"
| "match_here (GroupPlus k # items) s g =
     match_plus True items s g (length (takeWhile (in_class k) s))"
| "match_plus grp items s g 0 = None"
| "match_plus grp items s g (Suc n) =
     (case match_here items (drop (Suc n) s) (if grp then take (Suc n) s else g) of
        Some r \<Rightarrow> Some r
      | None \<Rightarrow> match_plus grp items s g n)"

text \<open>\<^verbatim>\<open>re.search(pattern, text)\<close>, then \<^verbatim>\<open>match.group(1)\<close>: the leftmost match.\<close>

fun re_search :: "rx_item list \<Rightarrow> string \<Rightarrow> string option" where
  "re_search p [] = match_here p [] []"
| "re_search p (c # cs) =
     (case match_here p (c # cs) [] of
        Some g \<Rightarrow> Some g
      | None \<Rightarrow> re_search p cs)"

text \<open>
  \<^verbatim>\<open>
  patterns = [
      r'calculate\s+([0-9+\-*/().^ ]+)',
      r'what\s+is\s+([0-9+\-*/().^ ]+)',
      r'compute\s+([0-9+\-*/().^ ]+)',
  ]
  \<close>
\<close>

definition patterns :: "rx_item list list" where
  "patterns =
     [map Lit ''calculate'' @ [Plus Whitespace, GroupPlus ExprChar],
      map Lit ''what'' @ [Plus Whitespace] @ map Lit ''is'' @ [Plus Whitespace, GroupPlus ExprChar],
      map Lit ''compute'' @ [Plus Whitespace, GroupPlus ExprChar]]"

subsection \<open>extract_and_calculate\<close>

text \<open>
  \<^verbatim>\<open>
  for pattern in patterns:
      match = re.search(pattern, text.lower())
      if match:
          expression = match.group(1).strip()
          expression = expression.replace('^', '**')
          return self.calculate(expression)
  return None
  \<close>
\<close>

fun extract_loop ::
  "(string \<Rightarrow> pyexc + 'x expr) \<Rightarrow> 'x arith \<Rightarrow> rx_item list list \<Rightarrow> string
     \<Rightarrow> 'x calc_result option" where
  "extract_loop ast_parse fl [] text = None"
| "extract_loop ast_parse fl (pattern # rest) text =
     (case re_search pattern (lower text) of
        Some group1 \<Rightarrow> Some (calculate ast_parse fl (replace_caret (strip group1)))
      | None \<Rightarrow> extract_loop ast_parse fl rest text)"

definition extract_and_calculate ::
  "(string \<Rightarrow> pyexc + 'x expr) \<Rightarrow> 'x arith \<Rightarrow> string \<Rightarrow> 'x calc_result option" where
  "extract_and_calculate ast_parse fl text = extract_loop ast_parse fl patterns text"

subsection \<open>format_calculator_response\<close>

text \<open>The decimal digits of a natural number.\<close>

definition digit_char :: "nat \<Rightarrow> char" where
  "digit_char d = ''0123456789'' ! (d mod 10)"

fun str_nat :: "nat \<Rightarrow> string" where
  "str_nat n = (if n < 10 then [digit_char n] else str_nat (n div 10) @ [digit_char (n mod 10)])"

declare str_nat.simps [simp del]

text \<open>
  How an f-string prints an int: the decimal digits, with a minus sign when negative.
  CPython limits the conversion of an int to decimal text: a value with more digits than
  \<^verbatim>\<open>sys.get_int_max_str_digits()\<close> raises ValueError. The limit is 4300 unless the
  interpreter is configured otherwise, and the source does not configure it. The sign does
  not count as a digit. Floats and complex numbers always print.
\<close>

definition int_max_str_digits :: nat where
  "int_max_str_digits = 4300"

definition str_int :: "int \<Rightarrow> pyexc + string" where
  "str_int i =
     (let digits = str_nat (nat \<bar>i\<bar>)
      in if int_max_str_digits < length digits
         then Inl (PyExc ValueError
                     (''Exceeds the limit ('' @ str_nat int_max_str_digits
                      @ '' digits) for integer string conversion; ''
                      @ ''use sys.set_int_max_str_digits() to increase the limit''))
         else Inr (if i < 0 then ''-'' @ digits else digits))"

fun str_num :: "'x arith \<Rightarrow> 'x pynum \<Rightarrow> pyexc + string" where
  "str_num fl (PyInt i) = str_int i"
| "str_num fl (PyFloat x) = Inr (fl_repr fl x)"
| "str_num fl (PyComplex z) = Inr (cx_repr fl z)"

text \<open>
  \<^verbatim>\<open>
  def format_calculator_response(result, pirate_style=True):
      if result['success']:
          value = result['result']
          if pirate_style:
              return f"By me calculations, that be **{value}**, savvy?"
          else:
              return f"The result is {value}"
      else:
          if pirate_style:
              return f"Arr, there be a problem with yer sum: {result['error']}"
          else:
              return f"Error: {result['error']}"
  \<close>
  An f-string prints \<^verbatim>\<open>None\<close> as \<^verbatim>\<open>None\<close>. The function has no \<^verbatim>\<open>try\<close>: when
  the conversion of the value raises, the exception leaves it.
\<close>

definition format_calculator_response ::
  "'x arith \<Rightarrow> 'x calc_result \<Rightarrow> bool \<Rightarrow> pyexc + string" where
  "format_calculator_response fl r pirate_style =
     (if success r then
        (case (case result r of None \<Rightarrow> Inr ''None'' | Some v \<Rightarrow> str_num fl v) of
           Inl e \<Rightarrow> Inl e
         | Inr value \<Rightarrow>
             Inr (if pirate_style then ''By me calculations, that be **'' @ value @ ''**, savvy?''
                  else ''The result is '' @ value))
      else
        (let err = (case error r of None \<Rightarrow> ''None'' | Some m \<Rightarrow> m)
         in Inr (if pirate_style then ''Arr, there be a problem with yer sum: '' @ err
                 else ''Error: '' @ err)))"

section \<open>Conversation memory (src/memory.py)\<close>

text \<open>
  A message is the dictionary \<^verbatim>\<open>{"role", "content", "timestamp"}\<close> built by
  \<^verbatim>\<open>Memory.add_message\<close>. The timestamp is \<^verbatim>\<open>datetime.now().isoformat()\<close>; the
  reading of the clock is an input of the model.
\<close>

record message =
  role :: string
  content :: string
  timestamp :: string

record memory =
  max_turns :: int
  conversation_history :: "message list"

text \<open>\<^verbatim>\<open>Memory(max_turns)\<close>: the constructor; \<^verbatim>\<open>max_turns\<close> is any Python int.\<close>

definition Memory :: "int \<Rightarrow> memory" where
  "Memory n = \<lparr>max_turns = n, conversation_history = []\<rparr>"

text \<open>
  Python's slice \<^verbatim>\<open>xs[i:]\<close> for an int \<^verbatim>\<open>i\<close>: a negative start counts from the end
  and is clamped at the front, a start past the end gives the empty list. In particular
  \<^verbatim>\<open>xs[-0:]\<close> is \<^verbatim>\<open>xs[0:]\<close>, the whole list.
\<close>

definition py_slice_from :: "'a list \<Rightarrow> int \<Rightarrow> 'a list" where
  "py_slice_from xs i =
     (let n = int (length xs);
          start = (if i < 0 then max 0 (n + i) else min i n)
      in drop (nat start) xs)"

text \<open>
  \<^verbatim>\<open>
  def add_message(self, role, content):
      message = {"role": role, "content": content, "timestamp": datetime.now().isoformat()}
      self.conversation_history.append(message)
      max_messages = self.max_turns * 2
      if len(self.conversation_history) > max_messages:
          self.conversation_history = self.conversation_history[-max_messages:]
  \<close>
\<close>

definition add_message :: "memory \<Rightarrow> string \<Rightarrow> string \<Rightarrow> string \<Rightarrow> memory" where
  "add_message m r c now =
     (let h = conversation_history m @ [\<lparr>role = r, content = c, timestamp = now\<rparr>];
          max_messages = max_turns m * 2
      in if int (length h) > max_messages
         then m\<lparr>conversation_history := py_slice_from h (- max_messages)\<rparr>
         else m\<lparr>conversation_history := h\<rparr>)"

text \<open>A sequence of calls of \<^verbatim>\<open>add_message\<close>, each with its role, content and clock reading.\<close>

fun add_messages :: "memory \<Rightarrow> (string \<times> string \<times> string) list \<Rightarrow> memory" where
  "add_messages m [] = m"
| "add_messages m ((r, c, now) # rest) = add_messages (add_message m r c now) rest"

definition mk_message :: "string \<times> string \<times> string \<Rightarrow> message" where
  "mk_message x = (case x of (r, c, now) \<Rightarrow> \<lparr>role = r, content = c, timestamp = now\<rparr>)"

text \<open>\<^verbatim>\<open>get_turn_count\<close>: \<^verbatim>\<open>len(self.conversation_history) // 2\<close>.\<close>

definition get_turn_count :: "memory \<Rightarrow> int" where
  "get_turn_count m = int (length (conversation_history m)) div 2"

text \<open>\<^verbatim>\<open>"\n".join(parts)\<close>.\<close>

fun join_lines :: "string list \<Rightarrow> string" where
  "join_lines [] = []"
| "join_lines [x] = x"
| "join_lines (x # y # ys) = x @ [CHR 0x0A] @ join_lines (y # ys)"

text \<open>
  \<^verbatim>\<open>
  def get_context_string(self):
      if not self.conversation_history:
          return "No previous conversation."
      context = []
      for msg in self.conversation_history:
          role_label = "User" if msg["role"] == "user" else "Jack"
          context.append(f"{role_label}: {msg['content']}")
      return "\n".join(context)
  \<close>
\<close>

definition get_context_string :: "memory \<Rightarrow> string" where
  "get_context_string m =
     (if conversation_history m = [] then ''No previous conversation.''
      else join_lines (map (\<lambda>msg. (if role msg = ''user'' then ''User'' else ''Jack'')
                                      @ '': '' @ content msg)
                           (conversation_history m)))"

section \<open>The retrieval index (src/vector_store.py)\<close>

text \<open>
  The embedding model and the ChromaDB collection are external: \<open>encode\<close> is
  \<^verbatim>\<open>self.embedding_model.encode([query_text])[0]\<close> and \<open>collection_query\<close> is
  \<^verbatim>\<open>self.collection.query(query_embeddings=[...], n_results=n_results)\<close>; each returns
  its value or the exception it raised. A query result is a dictionary whose entry
  \<^verbatim>\<open>'documents'\<close> is \<^verbatim>\<open>None\<close> or a list with one list of documents per query
  embedding; \<open>NoResult\<close> stands for a result that is falsy (\<^verbatim>\<open>None\<close> or empty).
\<close>

datatype query_result = NoResult | QueryResult (documents: "string list list option")

record 'v vector_store =
  encode :: "string \<Rightarrow> pyexc + 'v"
  collection_query :: "'v \<Rightarrow> int \<Rightarrow> pyexc + query_result"

text \<open>
  \<^verbatim>\<open>
  def query(self, query_text, n_results=3):
      query_embedding = self.embedding_model.encode([query_text])[0]
      results = self.collection.query(query_embeddings=[query_embedding.tolist()],
                                      n_results=n_results)
      if results and results['documents']:
          return results['documents'][0]
      return []
  \<close>
\<close>

definition query :: "'v vector_store \<Rightarrow> string \<Rightarrow> int \<Rightarrow> pyexc + string list" where
  "query vs query_text n_results =
     (case encode vs query_text of
        Inl e \<Rightarrow> Inl e
      | Inr query_embedding \<Rightarrow>
          (case collection_query vs query_embedding n_results of
             Inl e \<Rightarrow> Inl e
           | Inr results \<Rightarrow>
               (case results of
                  NoResult \<Rightarrow> Inr []
                | QueryResult None \<Rightarrow> Inr []
                | QueryResult (Some []) \<Rightarrow> Inr []
                | QueryResult (Some (docs # others)) \<Rightarrow> Inr docs)))"

section \<open>The chatbot (src/chatbot.py)\<close>

text \<open>
  \<open>model\<close> is \<^verbatim>\<open>self.model\<close>: \<open>None\<close> in offline mode, otherwise the call
  \<^verbatim>\<open>self.model.generate_content(prompt).text\<close>, which returns the generated text or the
  exception raised.
\<close>

record 'v sparrow_bot =
  model :: "(string \<Rightarrow> pyexc + string) option"
  vector_store :: "'v vector_store"
  memory :: memory

text \<open>\<^verbatim>\<open>SparrowBot.__init__\<close> creates the memory with \<^verbatim>\<open>Memory(max_turns=10)\<close>.\<close>

definition SparrowBot ::
  "(string \<Rightarrow> pyexc + string) option \<Rightarrow> 'v vector_store \<Rightarrow> 'v sparrow_bot" where
  "SparrowBot md vs = \<lparr>model = md, vector_store = vs, memory = Memory 10\<rparr>"

text \<open>
  What one call of \<^verbatim>\<open>chat\<close> reads from outside: the clock at its two calls of
  \<^verbatim>\<open>add_message\<close> and the index \<^verbatim>\<open>random.choice\<close> draws (an integer below the length
  of the sequence).
\<close>

record env =
  now_user :: string
  now_reply :: string
  draw :: nat

text \<open>The calls \<^verbatim>\<open>chat\<close> makes to the retrieval index and to the backend model, in order.\<close>

datatype event = Retrieval string int | Generate string

text \<open>
  The result of \<^verbatim>\<open>chat\<close>: the string returned or the exception that leaves the
  function, the memory afterwards and the external calls made.
\<close>

record outcome =
  returned :: "pyexc + string"
  memory_after :: memory
  calls :: "event list"

text \<open>
  \<^verbatim>\<open>
  def _check_for_calculation(self, user_message):
      result = self.calculator.extract_and_calculate(user_message)
      if result:
          return format_calculator_response(result, pirate_style=True)
      return None
  \<close>
  A result of \<^verbatim>\<open>calculate\<close> is a dictionary with three keys, so it is truthy. The
  call of \<^verbatim>\<open>format_calculator_response\<close> is outside any \<^verbatim>\<open>try\<close>, so its exception
  leaves \<^verbatim>\<open>_check_for_calculation\<close>.
\<close>

definition check_for_calculation ::
  "(string \<Rightarrow> pyexc + 'x expr) \<Rightarrow> 'x arith \<Rightarrow> string \<Rightarrow> pyexc + string option" where
  "check_for_calculation ast_parse fl user_message =
     (case extract_and_calculate ast_parse fl user_message of
        Some r \<Rightarrow>
          (case format_calculator_response fl r True of
             Inl e \<Rightarrow> Inl e
           | Inr response \<Rightarrow> Inr (Some response))
      | None \<Rightarrow> Inr None)"

text \<open>
  \<^verbatim>\<open>
  def _build_context_prompt(self, user_message):
      relevant_facts = self._retrieve_relevant_facts(user_message)       # n_results=2
      context_parts = []
      if relevant_facts:
          context_parts.append("Relevant facts from your memory:")
          for i, fact in enumerate(relevant_facts, 1):
              context_parts.append(f"{i}. {fact}")
      if self.memory.get_turn_count() > 0:
          context_parts.append("\nRecent conversation:")
          context_parts.append(self.memory.get_context_string())
      context_parts.append(f"\nCurrent user message: {user_message}")
      return "\n".join(context_parts)
  \<close>
  The index \<^verbatim>\<open>i\<close> counts the retrieved facts, far below the digit limit of the
  conversion, so it always prints.
\<close>

definition build_context_prompt ::
  "'v vector_store \<Rightarrow> memory \<Rightarrow> string \<Rightarrow> pyexc + string" where
  "build_context_prompt vs m user_message =
     (case query vs user_message 2 of
        Inl e \<Rightarrow> Inl e
      | Inr relevant_facts \<Rightarrow>
          Inr (join_lines
                 ((if relevant_facts \<noteq> []
                   then ''Relevant facts from your memory:''
                        # map (\<lambda>(i, fact_text). str_nat i @ ''. '' @ fact_text) (enumerate 1 relevant_facts)
                   else [])
                  @ (if get_turn_count m > 0
                     then [[CHR 0x0A] @ ''Recent conversation:'', get_context_string m]
                     else [])
                  @ [[CHR 0x0A] @ ''Current user message: '' @ user_message])))"

text \<open>The offline templates and fallback lines of \<^verbatim>\<open>chat\<close>.\<close>

definition templates :: "string list" where
  "templates =
     [''Arr, me compass points to this fact: {fact}'',
      ''By the powers! Did ye know? {fact}'',
      ''Savvy? {fact}'',
      ''The Black Pearl'' @ [CHR 0x27] @ ''s logbook says: {fact}'',
      ''Interesting... remarkably like this: {fact}'',
      ''Aye, that reminds me of when {fact}'']"

definition fallbacks :: "string list" where
  "fallbacks =
     [''Arr! I be Cap'' @ [CHR 0x27] @ ''n Jack Sparrow!'',
      ''Why is the rum always gone?'',
      ''Did no one come to save me just because they missed me?'',
      ''I'' @ [CHR 0x27] @ ''m Captain Jack Sparrow. Savvy?'',
      ''Take what you can, give nothing back!'',
      ''Me compass is pointing to... rum!'']"

text \<open>
  \<^verbatim>\<open>template.format(fact=fact)\<close> for a template whose only braces are those of the
  field \<^verbatim>\<open>{fact}\<close>: each occurrence of the field is replaced by the fact.
\<close>

fun format_fact :: "string \<Rightarrow> string \<Rightarrow> string" where
  "format_fact [] fact_text = []"
| "format_fact (c # cs) fact_text =
     (if take 6 (c # cs) = ''{fact}'' then fact_text @ format_fact (drop 5 cs) fact_text
      else c # format_fact cs fact_text)"

text \<open>The three \<^verbatim>\<open>except\<close> clauses around the backend call.\<close>

definition apology :: "pyexc \<Rightarrow> string" where
  "apology e =
     (if exc_class e = Unauthenticated
      then ''Arr! The Google guards blocked me. Check yer API key, savvy?''
      else if exc_class e = ResourceExhausted
      then ''Blimey! I'' @ [CHR 0x27]
           @ ''ve talked too much. Need a moment to catch me breath (Quota exceeded).''
      else ''Curse the black spot! Something went wrong: '' @ exc_msg e)"

text \<open>
  \<^verbatim>\<open>
  def chat(self, user_message):
      self.memory.add_message("user", user_message)
      calc_response = self._check_for_calculation(user_message)
      if calc_response:
          response = calc_response
          self.memory.add_message("assistant", response)
          return response
      if not self.model:
          templates = [...]
          facts = self._retrieve_relevant_facts(user_message, n_results=1)
          if facts:
              fact = facts[0]
              response = random.choice(templates).format(fact=fact)
          else:
              fallbacks = [...]
              response = random.choice(fallbacks)
          self.memory.add_message("assistant", response + " [Offline Mode]")
          return response + " [Offline Mode]"
      context_prompt = self._build_context_prompt(user_message)
      try:
          response = self.model.generate_content(context_prompt)
          assistant_message = response.text
          self.memory.add_message("assistant", assistant_message)
          return assistant_message
      except exceptions.Unauthenticated:
          return "Arr! The Google guards blocked me. Check yer API key, savvy?"
      except exceptions.ResourceExhausted:
          return "Blimey! I've talked too much. Need a moment to catch me breath (Quota exceeded)."
      except Exception as e:
          error_msg = f"Curse the black spot! Something went wrong: {str(e)}"
          return error_msg
  \<close>
  \<^verbatim>\<open>_retrieve_relevant_facts(q, n)\<close> is \<^verbatim>\<open>self.vector_store.query(q, n_results=n)\<close>.
  \<^verbatim>\<open>if calc_response:\<close> holds for a string that is not empty. The branch
  \<^verbatim>\<open>if not self.model:\<close> is \<open>chat_offline\<close>, the rest of the function is
  \<open>chat_backend\<close>; \<open>m1\<close> is the memory after the user message was added. The calls
  of \<^verbatim>\<open>_check_for_calculation\<close> and of the retrieval are outside the \<^verbatim>\<open>try\<close>: an
  exception of theirs leaves \<^verbatim>\<open>chat\<close> with the memory as it is then.
\<close>

definition chat_offline :: "'v sparrow_bot \<Rightarrow> env \<Rightarrow> memory \<Rightarrow> string \<Rightarrow> outcome" where
  "chat_offline self ev m1 user_message =
     (case query (vector_store self) user_message 1 of
        Inl e \<Rightarrow>
          \<lparr>returned = Inl e, memory_after = m1, calls = [Retrieval user_message 1]\<rparr>
      | Inr facts \<Rightarrow>
          (let response =
                 (if facts \<noteq> [] then format_fact (templates ! draw ev) (hd facts)
                  else fallbacks ! draw ev)
           in \<lparr>returned = Inr (response @ '' [Offline Mode]''),
               memory_after = add_message m1 ''assistant'' (response @ '' [Offline Mode]'')
                                (now_reply ev),
               calls = [Retrieval user_message 1]\<rparr>))"

definition chat_backend ::
  "(string \<Rightarrow> pyexc + string) \<Rightarrow> 'v sparrow_bot \<Rightarrow> env \<Rightarrow> memory \<Rightarrow> string \<Rightarrow> outcome" where
  "chat_backend generate self ev m1 user_message =
     (case build_context_prompt (vector_store self) m1 user_message of
        Inl e \<Rightarrow>
          \<lparr>returned = Inl e, memory_after = m1, calls = [Retrieval user_message 2]\<rparr>
      | Inr context_prompt \<Rightarrow>
          (case generate context_prompt of
             Inr assistant_message \<Rightarrow>
               \<lparr>returned = Inr assistant_message,
                memory_after = add_message m1 ''assistant'' assistant_message (now_reply ev),
                calls = [Retrieval user_message 2, Generate context_prompt]\<rparr>
           | Inl e \<Rightarrow>
               \<lparr>returned = Inr (apology e), memory_after = m1,
                calls = [Retrieval user_message 2, Generate context_prompt]\<rparr>))"

definition chat ::
  "(string \<Rightarrow> pyexc + 'x expr) \<Rightarrow> 'x arith \<Rightarrow> 'v sparrow_bot \<Rightarrow> env \<Rightarrow> string \<Rightarrow> outcome" where
  "chat ast_parse fl self ev user_message =
     (let m1 = add_message (memory self) ''user'' user_message (now_user ev);
          no_calculation =
            (case model self of
               None \<Rightarrow> chat_offline self ev m1 user_message
             | Some generate \<Rightarrow> chat_backend generate self ev m1 user_message)
      in case check_for_calculation ast_parse fl user_message of
           Inl e \<Rightarrow> \<lparr>returned = Inl e, memory_after = m1, calls = []\<rparr>
         | Inr None \<Rightarrow> no_calculation
         | Inr (Some response) \<Rightarrow>
             (if response = [] then no_calculation
              else \<lparr>returned = Inr response,
                    memory_after = add_message m1 ''assistant'' response (now_reply ev),
                    calls = []\<rparr>))"

section \<open>A model of Python's parser on arithmetic text\<close>

text \<open>
  \<open>py_parse\<close> follows Python's tokenizer and expression grammar on the text that
  \<^verbatim>\<open>extract_and_calculate\<close> can pass to \<^verbatim>\<open>calculate\<close> (digits, the point, the space,
  parentheses and \<^verbatim>\<open>+ - * /\<close>) and on the further operator characters
  \<^verbatim>\<open>% @ & | ^ ~\<close>. Such text can also spell a call (\<^verbatim>\<open>(1)(2)\<close>), the empty tuple and
  the ellipsis; Python parses them and so does the model. Text with any other character is
  outside the model: \<open>py_parse\<close> answers SyntaxError there, which need not be Python's
  answer, and the message of a SyntaxError is a fixed text. An integer literal with more
  digits than \<open>int_max_str_digits\<close> is refused unless it is a run of zeros, as Python's
  parser refuses it. The theorems that hold for every string are therefore stated for every
  parser; \<open>py_parse\<close> is used to run the model on concrete arithmetic text.
\<close>

text \<open>The tokens of Python's tokenizer that can be written with these characters.\<close>

datatype 'x token =
  NUMBER "'x pynum" | ELLIPSIS | DOT | LPAR | RPAR | PLUS | MINUS | STAR | SLASH
  | DOUBLESTAR | DOUBLESLASH | PERCENT | AT | AMPER | VBAR | CIRCUMFLEX | TILDE

definition is_digit :: "char \<Rightarrow> bool" where
  "is_digit c = (c \<in> set ''0123456789'')"

definition int_of_digits :: "string \<Rightarrow> int" where
  "int_of_digits ds = foldl (\<lambda>a c. 10 * a + (int (of_char c) - 48)) 0 ds"

definition valid_decinteger :: "string \<Rightarrow> bool" where
  "valid_decinteger ds = (ds \<noteq> [] \<and> (hd ds \<noteq> CHR ''0'' \<or> (\<forall>c \<in> set ds. c = CHR ''0'')))"

lemma length_dropWhile_tl_dropWhile:
  "length (dropWhile P (tl (dropWhile Q cs))) \<le> length cs"
proof -
  have "length (dropWhile P (tl (dropWhile Q cs))) \<le> length (tl (dropWhile Q cs))"
    by (rule length_dropWhile_le)
  also have "\<dots> \<le> length (dropWhile Q cs)" by simp
  also have "\<dots> \<le> length cs" by (rule length_dropWhile_le)
  finally show ?thesis .
qed

function lex :: "'x arith \<Rightarrow> string \<Rightarrow> 'x token list option" where
  "lex fl [] = Some []"
| "lex fl (c # cs) =
     (if c = CHR '' '' then lex fl cs
      else if is_digit c then
        (let ds = c # takeWhile is_digit cs; r = dropWhile is_digit cs
         in if r \<noteq> [] \<and> hd r = CHR ''.''
            then (let fs = takeWhile is_digit (tl r)
                  in map_option (Cons (NUMBER (PyFloat (fl_literal fl (ds @ ''.'' @ fs)))))
                       (lex fl (dropWhile is_digit (tl r))))
            else if valid_decinteger ds
                    \<and> (hd ds = CHR ''0'' \<or> length ds \<le> int_max_str_digits)
                 then map_option (Cons (NUMBER (PyInt (int_of_digits ds)))) (lex fl r)
                 else None)
      else if c = CHR ''.'' then
        (if cs \<noteq> [] \<and> is_digit (hd cs)
         then map_option (Cons (NUMBER (PyFloat (fl_literal fl (''.'' @ takeWhile is_digit cs)))))
                (lex fl (dropWhile is_digit cs))
         else if take 2 cs = ''..'' then map_option (Cons ELLIPSIS) (lex fl (drop 2 cs))
         else map_option (Cons DOT) (lex fl cs))
      else if c = CHR ''*'' then
        (if cs \<noteq> [] \<and> hd cs = CHR ''*'' then map_option (Cons DOUBLESTAR) (lex fl (tl cs))
         else map_option (Cons STAR) (lex fl cs))
      else if c = CHR ''/'' then
        (if cs \<noteq> [] \<and> hd cs = CHR ''/'' then map_option (Cons DOUBLESLASH) (lex fl (tl cs))
         else map_option (Cons SLASH) (lex fl cs))
      else if c = CHR ''('' then map_option (Cons LPAR) (lex fl cs)
      else if c = CHR '')'' then map_option (Cons RPAR) (lex fl cs)
      else if c = CHR ''+'' then map_option (Cons PLUS) (lex fl cs)
      else if c = CHR ''-'' then map_option (Cons MINUS) (lex fl cs)
      else if c = CHR ''%'' then map_option (Cons PERCENT) (lex fl cs)
      else if c = CHR ''@'' then map_option (Cons AT) (lex fl cs)
      else if c = CHR ''&'' then map_option (Cons AMPER) (lex fl cs)
      else if c = CHR ''|'' then map_option (Cons VBAR) (lex fl cs)
      else if c = CHR ''^'' then map_option (Cons CIRCUMFLEX) (lex fl cs)
      else if c = CHR ''~'' then map_option (Cons TILDE) (lex fl cs)
      else None)"
  by pat_completeness auto
termination
  by (relation "measure (\<lambda>(fl, s). length s)")
     (auto simp: less_Suc_eq_le length_dropWhile_le length_dropWhile_tl_dropWhile)

definition binop_at :: "nat \<Rightarrow> 'x token \<Rightarrow> operator option" where
  "binop_at lvl t =
     (if lvl = 0 then (case t of VBAR \<Rightarrow> Some BitOr | _ \<Rightarrow> None)
      else if lvl = 1 then (case t of CIRCUMFLEX \<Rightarrow> Some BitXor | _ \<Rightarrow> None)
      else if lvl = 2 then (case t of AMPER \<Rightarrow> Some BitAnd | _ \<Rightarrow> None)
      else if lvl = 3 then (case t of PLUS \<Rightarrow> Some Add | MINUS \<Rightarrow> Some Sub | _ \<Rightarrow> None)
      else if lvl = 4 then
        (case t of STAR \<Rightarrow> Some Mult | SLASH \<Rightarrow> Some Div | DOUBLESLASH \<Rightarrow> Some FloorDiv
         | PERCENT \<Rightarrow> Some Mod | AT \<Rightarrow> Some MatMult | _ \<Rightarrow> None)
      else None)"

definition unaryop_of :: "'x token \<Rightarrow> unaryop option" where
  "unaryop_of t =
     (case t of PLUS \<Rightarrow> Some UAdd | MINUS \<Rightarrow> Some USub | TILDE \<Rightarrow> Some Invert | _ \<Rightarrow> None)"

type_synonym 'x parsed = "('x expr \<times> 'x token list) option"

text \<open>
  The grammar rules, with the fuel \<open>n\<close> bounding the depth of the descent:
  \<open>Binary lvl\<close> is the rule of the left-associative binary operators of a level
  (\<^verbatim>\<open>|\<close>, \<^verbatim>\<open>^\<close>, \<^verbatim>\<open>&\<close>, then \<^verbatim>\<open>+ -\<close>, then \<^verbatim>\<open>* / // % @\<close>) and
  \<open>BinaryRest\<close> its loop; \<open>Factor\<close> is
  \<^verbatim>\<open>factor: ('+' | '-' | '~') factor | primary ['**' factor]\<close>; \<open>Primary\<close> is an atom
  followed by its call trailers, \<open>Trailers\<close>. A descent enters at most ten rules for
  each token it reads, so the fuel \<open>16 * length ts + 16\<close> that \<open>py_parse\<close> gives is
  never used up.
\<close>

datatype 'x rule =
  Binary nat | BinaryRest nat "'x expr" | Factor | Primary | Trailers "'x expr"

primrec parse :: "nat \<Rightarrow> 'x rule \<Rightarrow> 'x token list \<Rightarrow> 'x parsed" where
  "parse 0 rule ts = None"
| "parse (Suc n) rule ts =
     (case rule of
        Binary lvl \<Rightarrow>
          (if 5 \<le> lvl then parse n Factor ts
           else (case parse n (Binary (Suc lvl)) ts of
                   None \<Rightarrow> None
                 | Some (lhs, ts') \<Rightarrow> parse n (BinaryRest lvl lhs) ts'))
      | BinaryRest lvl lhs \<Rightarrow>
          (case ts of
             [] \<Rightarrow> Some (lhs, [])
           | t # ts' \<Rightarrow>
               (case binop_at lvl t of
                  None \<Rightarrow> Some (lhs, ts)
                | Some op \<Rightarrow>
                    (case parse n (Binary (Suc lvl)) ts' of
                       None \<Rightarrow> None
                     | Some (rhs, ts'') \<Rightarrow> parse n (BinaryRest lvl (BinOp lhs op rhs)) ts'')))
      | Factor \<Rightarrow>
          (case ts of
             [] \<Rightarrow> None
           | t # ts' \<Rightarrow>
               (case unaryop_of t of
                  Some u \<Rightarrow>
                    (case parse n Factor ts' of
                       None \<Rightarrow> None
                     | Some (e, ts'') \<Rightarrow> Some (UnaryOp u e, ts''))
                | None \<Rightarrow>
                    (case parse n Primary ts of
                       None \<Rightarrow> None
                     | Some (b, ts'') \<Rightarrow>
                         (if ts'' \<noteq> [] \<and> hd ts'' = DOUBLESTAR
                          then (case parse n Factor (tl ts'') of
                                  None \<Rightarrow> None
                                | Some (e, ts''') \<Rightarrow> Some (BinOp b Pow_op e, ts'''))
                          else Some (b, ts'')))))
      | Primary \<Rightarrow>
          (case ts of
             [] \<Rightarrow> None
           | t # ts' \<Rightarrow>
               (case t of
                  NUMBER v \<Rightarrow> parse n (Trailers (Constant (CNum v))) ts'
                | ELLIPSIS \<Rightarrow> parse n (Trailers (Constant CEllipsis)) ts'
                | LPAR \<Rightarrow>
                    (if ts' \<noteq> [] \<and> hd ts' = RPAR
                     then parse n (Trailers (OtherExpr ''Tuple'' [])) (tl ts')
                     else (case parse n (Binary 0) ts' of
                             None \<Rightarrow> None
                           | Some (e, ts'') \<Rightarrow>
                               (if ts'' \<noteq> [] \<and> hd ts'' = RPAR
                                then parse n (Trailers e) (tl ts'')
                                else None)))
                | _ \<Rightarrow> None))
      | Trailers f \<Rightarrow>
          (case ts of
             [] \<Rightarrow> Some (f, [])
           | t # ts' \<Rightarrow>
               (if t \<noteq> LPAR then Some (f, ts)
                else if ts' \<noteq> [] \<and> hd ts' = RPAR
                then parse n (Trailers (Call f [] [])) (tl ts')
                else (case parse n (Binary 0)
                             (if ts' \<noteq> [] \<and> (hd ts' = STAR \<or> hd ts' = DOUBLESTAR)
                              then tl ts' else ts') of
                        None \<Rightarrow> None
                      | Some (a, ts'') \<Rightarrow>
                          (if ts'' \<noteq> [] \<and> hd ts'' = RPAR
                           then parse n
                                  (Trailers
                                     (if ts' \<noteq> [] \<and> hd ts' = STAR
                                      then Call f [OtherExpr ''Starred'' [a]] []
                                      else if ts' \<noteq> [] \<and> hd ts' = DOUBLESTAR
                                      then Call f [] [(None, a)]
                                      else Call f [a] []))
                                  (tl ts'')
                           else None)))))"

definition py_parse :: "'x arith \<Rightarrow> string \<Rightarrow> pyexc + 'x expr" where
  "py_parse fl s =
     (case lex fl s of
        None \<Rightarrow> Inl (PyExc SyntaxError ''invalid syntax'')
      | Some ts \<Rightarrow>
          (case parse (16 * length ts + 16) (Binary 0) ts of
             Some (e, []) \<Rightarrow> Inr e
           | _ \<Rightarrow> Inl (PyExc SyntaxError ''invalid syntax'')))"

section \<open>An arithmetic to run the model\<close>

text \<open>
  \<open>exact_arith\<close> instantiates the runtime's arithmetic with exact rational numbers: no
  rounding, no overflow, no infinities. It agrees with IEEE doubles wherever the operands
  and the exact result are representable (\<^verbatim>\<open>100 / 4\<close> is \<^verbatim>\<open>25.0\<close>). A power with a
  fractional exponent has no rational value in general and raises in this arithmetic,
  there are no complex numbers, and a float is printed in decimal notation with at most 17
  digits after the point. It serves to evaluate the model at concrete inputs; the general
  theorems are proved for every arithmetic.
\<close>

definition exact_literal :: "string \<Rightarrow> rat" where
  "exact_literal s =
     (let ds = takeWhile (\<lambda>c. c \<noteq> CHR ''.'') s;
          fs = drop 1 (dropWhile (\<lambda>c. c \<noteq> CHR ''.'') s)
      in of_int (int_of_digits (ds @ fs)) / 10 ^ length fs)"

fun fraction_digits :: "nat \<Rightarrow> rat \<Rightarrow> string" where
  "fraction_digits 0 x = []"
| "fraction_digits (Suc n) x =
     (if x = 0 then []
      else digit_char (nat \<lfloor>10 * x\<rfloor>)
           # fraction_digits n (10 * x - of_int \<lfloor>10 * x\<rfloor>))"

definition exact_repr :: "rat \<Rightarrow> string" where
  "exact_repr x =
     (let a = \<bar>x\<bar>; whole = \<lfloor>a\<rfloor>; part = a - of_int whole
      in (if x < 0 then ''-'' else []) @ str_nat (nat whole) @ ''.''
         @ (if part = 0 then ''0'' else fraction_digits 17 part))"

definition exact_pow :: "rat \<Rightarrow> rat \<Rightarrow> pyexc + rat pynum" where
  "exact_pow x y =
     (case quotient_of y of
        (k, q) \<Rightarrow>
          if q \<noteq> 1 then Inl (PyExc OverflowError ''fractional power'')
          else if 0 \<le> k then Inr (PyFloat (x ^ nat k))
          else if x = 0
          then Inl (PyExc ZeroDivisionError ''0.0 cannot be raised to a negative power'')
          else Inr (PyFloat (1 / x ^ nat (- k))))"

definition exact_arith :: "rat arith" where
  "exact_arith =
     \<lparr>fl_of_int = (\<lambda>i. Inr (of_int i)),
      fl_int_truediv = (\<lambda>a b. Inr (of_int a / of_int b)),
      fl_is_zero = (\<lambda>x. x = 0),
      fl_add = (\<lambda>x y. x + y),
      fl_sub = (\<lambda>x y. x - y),
      fl_mul = (\<lambda>x y. x * y),
      fl_div = (\<lambda>x y. x / y),
      fl_neg = (\<lambda>x. - x),
      fl_pow = exact_pow,
      fl_literal = exact_literal,
      fl_repr = exact_repr,
      cx_binop = (\<lambda>op l r. Inl (PyExc (OtherException ''TypeError'') ''no complex numbers'')),
      cx_neg = (\<lambda>z. z),
      cx_repr = (\<lambda>z. ''complex'')\<rparr>"

section \<open>Notions used in the statements\<close>

text \<open>
  \<open>parse_as t\<close> is a parser that answers the tree \<open>t\<close>: it states what
  \<^verbatim>\<open>ast.parse\<close> returns for a text that \<open>py_parse\<close> does not cover (a text with names).
\<close>

definition parse_as :: "'x expr \<Rightarrow> string \<Rightarrow> pyexc + 'x expr" where
  "parse_as t s = Inr t"

text \<open>
  The trees the specification permits: numeric literals, the binary operators
  \<^verbatim>\<open>+ - * / **\<close> and unary negation.
\<close>

fun whitelisted :: "'x expr \<Rightarrow> bool" where
  "whitelisted (Constant (CNum n)) = True"
| "whitelisted (BinOp l op r) =
     (op \<in> {Add, Sub, Mult, Div, Pow_op} \<and> whitelisted l \<and> whitelisted r)"
| "whitelisted (UnaryOp op e) = (op = USub \<and> whitelisted e)"
| "whitelisted node = False"

text \<open>The two failure results of \<^verbatim>\<open>calculate\<close>, and the shape of every result.\<close>

definition division_by_zero_failure :: "'x calc_result \<Rightarrow> bool" where
  "division_by_zero_failure r =
     (r = \<lparr>success = False, result = None, error = Some ''Cannot divide by zero, mate!''\<rparr>)"

definition invalid_expression_failure :: "'x calc_result \<Rightarrow> bool" where
  "invalid_expression_failure r =
     (\<not> success r \<and> result r = None \<and>
      (case error r of None \<Rightarrow> False | Some m \<Rightarrow> take 20 m = ''Invalid expression: ''))"

text \<open>
  The mathematical value of a tree of exact integer arithmetic (\<open>int_arith\<close>):
  integer literals, \<^verbatim>\<open>+ - *\<close>, unary minus and powers with a non-negative exponent.
\<close>

fun math_value :: "'x expr \<Rightarrow> int" where
  "math_value (Constant (CNum (PyInt i))) = i"
| "math_value (BinOp l Add r) = math_value l + math_value r"
| "math_value (BinOp l Sub r) = math_value l - math_value r"
| "math_value (BinOp l Mult r) = math_value l * math_value r"
| "math_value (BinOp l Pow_op r) = math_value l ^ nat (math_value r)"
| "math_value (UnaryOp USub e) = - math_value e"
| "math_value node = 0"

fun int_arith :: "'x expr \<Rightarrow> bool" where
  "int_arith (Constant (CNum (PyInt i))) = True"
| "int_arith (BinOp l op r) =
     (int_arith l \<and> int_arith r \<and>
      (op = Add \<or> op = Sub \<or> op = Mult \<or> (op = Pow_op \<and> 0 \<le> math_value r)))"
| "int_arith (UnaryOp op e) = (op = USub \<and> int_arith e)"
| "int_arith node = False"






text \<open>
  Collaborators to run \<^verbatim>\<open>chat\<close> at concrete inputs: a retrieval index whose embedding
  model raises, an empty index (ChromaDB answers one empty list of documents), an index
  with two facts, a backend that raises ResourceExhausted, a backend that answers, and a
  reading of the clock and of the random generator.
\<close>

definition failing_store :: "unit vector_store" where
  "failing_store =
     \<lparr>encode = (\<lambda>s. Inl (PyExc (OtherException ''RuntimeError'') ''embedding model unavailable'')),
      collection_query = (\<lambda>v n. Inr NoResult)\<rparr>"

definition empty_store :: "unit vector_store" where
  "empty_store =
     \<lparr>encode = (\<lambda>s. Inr ()),
      collection_query = (\<lambda>v n. Inr (QueryResult (Some [[]])))\<rparr>"

definition pearl_store :: "unit vector_store" where
  "pearl_store =
     \<lparr>encode = (\<lambda>s. Inr ()),
      collection_query =
        (\<lambda>v n. Inr (QueryResult
                      (Some [take (nat n) [''The Black Pearl is the fastest ship in the Caribbean.'',
                                           ''Jack Sparrow is the captain of the Black Pearl.'']])))\<rparr>"

definition quota_backend :: "string \<Rightarrow> pyexc + string" where
  "quota_backend prompt = Inl (PyExc ResourceExhausted ''429 Quota exceeded'')"

definition echo_backend :: "string \<Rightarrow> pyexc + string" where
  "echo_backend prompt = Inr ''Aye, savvy?''"

definition sample_env :: env where
  "sample_env = \<lparr>now_user = ''2024-01-01T10:00:00'', now_reply = ''2024-01-01T10:00:01'', draw = 2\<rparr>"

text \<open>The memory right after \<^verbatim>\<open>chat\<close> has recorded the user message.\<close>

definition user_turn :: "memory \<Rightarrow> env \<Rightarrow> string \<Rightarrow> memory" where
  "user_turn m ev user_message = add_message m ''user'' user_message (now_user ev)"

section \<open>Properties of the memory\<close>

lemma py_slice_from_neg:
  "0 < k \<Longrightarrow> py_slice_from xs (- k) = drop (length xs - nat k) xs"
  by (auto simp: py_slice_from_def Let_def max_def nat_diff_distrib'
      intro!: arg_cong2[where f = drop])

lemma drop_window:
  "drop (length (drop (length h - c) h @ ys) - c) (drop (length h - c) h @ ys)
   = drop (length (h @ ys) - c) (h @ ys)"
proof (cases "length h \<le> c")
  case True
  then show ?thesis by simp
next
  case False
  define d where "d = length h - c"
  have d: "d \<le> length h" "length h - d = c" "length h + length ys - c = length ys + d"
    using False by (auto simp: d_def)
  have app: "drop d (h @ ys) = drop d h @ ys"
    using d(1) by simp
  have "drop (length (h @ ys) - c) (h @ ys) = drop (length ys + d) (h @ ys)"
    by (simp only: length_append d(3))
  also have "\<dots> = drop (length ys) (drop d (h @ ys))"
    by (simp only: drop_drop)
  also have "\<dots> = drop (length ys) (drop d h @ ys)"
    by (simp only: app)
  finally have rhs: "drop (length (h @ ys) - c) (h @ ys) = drop (length ys) (drop d h @ ys)" .
  have "length (drop d h @ ys) - c = length ys"
    using d by simp
  then show ?thesis
    unfolding rhs d_def[symmetric] by (simp only:)
qed

lemma add_message_history:
  assumes "0 < max_turns m"
  shows "conversation_history (add_message m r c now) =
         (let h = conversation_history m @ [\<lparr>role = r, content = c, timestamp = now\<rparr>]
          in drop (length h - nat (2 * max_turns m)) h)"
proof -
  have pos: "0 < max_turns m * 2" using assms by simp
  show ?thesis
    using assms
    by (auto simp: add_message_def Let_def py_slice_from_neg[OF pos] mult.commute)
qed

lemma add_message_max_turns [simp]: "max_turns (add_message m r c now) = max_turns m"
  by (simp add: add_message_def Let_def)

text \<open>
  With a positive \<^verbatim>\<open>max_turns\<close> the window works as the source's comment says
  (``keep last N turns''): after any sequence of appends to a memory within its capacity
  the history is the last \<open>2 * max_turns\<close> messages of everything appended, in order.
\<close>

lemma add_messages_window:
  assumes "0 < max_turns m"
    and "int (length (conversation_history m)) \<le> 2 * max_turns m"
  shows "max_turns (add_messages m xs) = max_turns m \<and>
         conversation_history (add_messages m xs) =
           (let h = conversation_history m @ map mk_message xs
            in drop (length h - nat (2 * max_turns m)) h)"
  using assms
proof (induction xs arbitrary: m)
  case Nil
  then show ?case by (simp add: Let_def)
next
  case (Cons x xs)
  obtain r c now where x: "x = (r, c, now)" by (cases x) auto
  let ?m' = "add_message m r c now"
  let ?cap = "nat (2 * max_turns m)"
  let ?h = "conversation_history m @ [mk_message x]"
  have h': "conversation_history ?m' = drop (length ?h - ?cap) ?h"
    using add_message_history[OF Cons.prems(1), of r c now] x
    by (simp add: Let_def mk_message_def)
  have len': "int (length (conversation_history ?m')) \<le> 2 * max_turns ?m'"
    using Cons.prems(1) by (simp add: h')
  have pos': "0 < max_turns ?m'" using Cons.prems(1) by simp
  have IH: "conversation_history (add_messages ?m' xs) =
            (let h = conversation_history ?m' @ map mk_message xs
             in drop (length h - ?cap) h)"
    and IHm: "max_turns (add_messages ?m' xs) = max_turns m"
    using Cons.IH[OF pos' len'] by simp_all
  have "conversation_history (add_messages ?m' xs) =
        drop (length (?h @ map mk_message xs) - ?cap) (?h @ map mk_message xs)"
    unfolding IH h' Let_def by (rule drop_window)
  then show ?case
    using IHm x by (simp add: Let_def)
qed

lemma add_messages_length:
  assumes "0 < max_turns m"
    and "int (length (conversation_history m)) \<le> 2 * max_turns m"
  shows "int (length (conversation_history (add_messages m xs))) \<le> 2 * max_turns m"
  using add_messages_window[OF assms, of xs] assms(1)
  by (simp add: Let_def)

text \<open>
  The specification's example for a positive \<^verbatim>\<open>max_turns\<close>: appending
  \<open>2 * (max_turns + 3)\<close> messages to a new memory leaves exactly the last
  \<open>2 * max_turns\<close> of them, in order.
\<close>

lemma add_messages_overflow:
  assumes "0 < n" and "int (length xs) = 2 * (n + 3)"
  shows "conversation_history (add_messages (Memory n) xs) = drop 6 (map mk_message xs)
         \<and> int (length (conversation_history (add_messages (Memory n) xs))) = 2 * n"
proof -
  have w: "conversation_history (add_messages (Memory n) xs)
           = drop (length xs - nat (2 * n)) (map mk_message xs)"
    using add_messages_window[of "Memory n" xs] assms(1)
    by (simp add: Memory_def Let_def)
  have len: "length xs = nat (2 * n) + 6"
    using assms by (simp add: nat_add_distrib)
  then have "length xs - nat (2 * n) = 6"
    by simp
  with w len assms(1) show ?thesis by simp
qed

text \<open>
  Claim C5. The claim bounds the history by \<open>2 * max_turns\<close> for every memory and has
  \<open>2 * (max_turns + 3)\<close> appends leave exactly \<open>2 * max_turns\<close> messages. With
  \<^verbatim>\<open>max_turns = 0\<close> the bound is 0, but \<^verbatim>\<open>add_message\<close> trims with
  \<^verbatim>\<open>history[-0:]\<close>, which is the whole list: nothing is ever evicted, one append already
  leaves a message in the memory, and six appends leave six.
\<close>

theorem memory_zero_capacity_keeps_message:
  "length (conversation_history (add_message (Memory 0) ''user'' ''Hello Jack!'' ''t0'')) = 1
   \<and> \<not> int (length (conversation_history
         (add_message (Memory 0) ''user'' ''Hello Jack!'' ''t0''))) \<le> 2 * max_turns (Memory 0)
   \<and> length (conversation_history (add_messages (Memory 0)
         [(''user'', ''Message 0'', ''t0''), (''assistant'', ''Response 0'', ''t1''),
          (''user'', ''Message 1'', ''t2''), (''assistant'', ''Response 1'', ''t3''),
          (''user'', ''Message 2'', ''t4''), (''assistant'', ''Response 2'', ''t5'')])) = 6"
  by (simp add: add_message_def Memory_def py_slice_from_def Let_def)

section \<open>Properties of the calculator\<close>

lemma OPERATORS_binary_Some:
  "OPERATORS_binary fl op = Some f \<Longrightarrow> op \<in> {Add, Sub, Mult, Div, Pow_op}"
  by (cases op) auto

lemma OPERATORS_unary_Some: "OPERATORS_unary fl op = Some f \<Longrightarrow> op = USub"
  by (cases op) auto

lemma safe_eval_value_whitelisted: "safe_eval fl t = Inr v \<Longrightarrow> whitelisted t"
proof (induction fl t arbitrary: v rule: safe_eval.induct)
  case (2 fl l op r)
  then show ?case
    by (auto split: sum.splits option.splits dest: OPERATORS_binary_Some)
next
  case (3 fl op e)
  then show ?case
    by (auto split: sum.splits option.splits dest: OPERATORS_unary_Some)
qed auto

lemma calculate_except_division:
  "exc_class e = ZeroDivisionError \<Longrightarrow> division_by_zero_failure (calculate_except e :: 'x calc_result)"
  by (simp add: calculate_except_def division_by_zero_failure_def)

lemma calculate_except_invalid:
  "exc_class e \<noteq> ZeroDivisionError \<Longrightarrow> invalid_expression_failure (calculate_except e :: 'x calc_result)"
  by (simp add: calculate_except_def invalid_expression_failure_def)

text \<open>
  Claim C1 (amended). Whatever the parser returns for the input, a tree with a node outside
  the whitelist (a name, a call, an attribute access, a non-numeric constant, any other node
  class, an operator other than \<^verbatim>\<open>+ - * / **\<close> and unary minus) is never evaluated to
  a value: \<^verbatim>\<open>_safe_eval\<close> raises, \<^verbatim>\<open>calculate\<close> returns a failure without a value, and
  the error is the invalid-expression one unless a division by zero was raised before the
  offending node was reached, in which case it is the division-by-zero one. The table of
  operators holds the whitelisted operators only, so no other operation is ever applied.
\<close>

theorem calculate_rejects_non_whitelisted:
  assumes "ast_parse (strip s) = Inr t" and "\<not> whitelisted t"
  shows "(\<exists>e. safe_eval fl t = Inl e)
    \<and> \<not> success (calculate ast_parse fl s)
    \<and> result (calculate ast_parse fl s) = None
    \<and> (if \<exists>e. safe_eval fl t = Inl e \<and> exc_class e = ZeroDivisionError
       then division_by_zero_failure (calculate ast_parse fl s)
       else invalid_expression_failure (calculate ast_parse fl s))
    \<and> (\<forall>op. OPERATORS_binary fl op \<noteq> None \<longleftrightarrow> op \<in> {Add, Sub, Mult, Div, Pow_op})
    \<and> (\<forall>op. OPERATORS_unary fl op \<noteq> None \<longleftrightarrow> op = USub)"
proof -
  obtain e where e: "safe_eval fl t = Inl e"
    using assms(2) safe_eval_value_whitelisted[of fl t] by (cases "safe_eval fl t") auto
  have calc: "calculate ast_parse fl s = calculate_except e"
    by (simp add: calculate_def assms(1) e)
  have ops: "(\<forall>op. OPERATORS_binary fl op \<noteq> None \<longleftrightarrow> op \<in> {Add, Sub, Mult, Div, Pow_op})"
    by (rule allI, case_tac op) auto
  have uops: "(\<forall>op. OPERATORS_unary fl op \<noteq> None \<longleftrightarrow> op = USub)"
    by (rule allI, case_tac op) auto
  have ns: "\<not> success (calculate_except e :: 'a calc_result)"
    by (simp add: calculate_except_def)
  have nr: "result (calculate_except e :: 'a calc_result) = None"
    by (simp add: calculate_except_def)
  have tag: "if \<exists>e. safe_eval fl t = Inl e \<and> exc_class e = ZeroDivisionError
       then division_by_zero_failure (calculate ast_parse fl s)
       else invalid_expression_failure (calculate ast_parse fl s)"
    by (auto simp: e calc calculate_except_division calculate_except_invalid)
  show ?thesis
    using e ns nr tag ops uops unfolding calc by (intro conjI) auto
qed

text \<open>The theorem at the input \<^verbatim>\<open>7 % 2\<close>: the operator \<^verbatim>\<open>%\<close> is not whitelisted.\<close>

theorem calculate_rejects_non_whitelisted_witness:
  "py_parse exact_arith (strip ''7 % 2'')
     = Inr (BinOp (Constant (CNum (PyInt 7))) Mod (Constant (CNum (PyInt 2))))
   \<and> \<not> whitelisted (BinOp (Constant (CNum (PyInt 7))) Mod (Constant (CNum (PyInt 2))) :: rat expr)
   \<and> \<not> success (calculate (py_parse exact_arith) exact_arith ''7 % 2'')
   \<and> result (calculate (py_parse exact_arith) exact_arith ''7 % 2'') = None
   \<and> invalid_expression_failure (calculate (py_parse exact_arith) exact_arith ''7 % 2'')"
proof -
  let ?t = "BinOp (Constant (CNum (PyInt 7))) Mod (Constant (CNum (PyInt 2))) :: rat expr"
  have p: "py_parse exact_arith (strip ''7 % 2'') = Inr ?t"
    by code_simp
  have w: "\<not> whitelisted ?t"
    by simp
  have e: "\<not> (\<exists>e. safe_eval exact_arith ?t = Inl e \<and> exc_class e = ZeroDivisionError)"
    by simp
  show ?thesis
    using calculate_rejects_non_whitelisted
            [where ast_parse = "py_parse exact_arith" and s = "''7 % 2''" and t = ?t
               and fl = exact_arith] p w e
    by simp
qed

text \<open>
  Claim C1 as stated fails: \<^verbatim>\<open>1/0 + abs(2)\<close> contains a call of a name, and
  \<^verbatim>\<open>1 / 0 % 2\<close> the operator \<^verbatim>\<open>%\<close>, but the left operand is evaluated first and the
  result is the division-by-zero failure, not an invalid-expression one.
\<close>

theorem division_by_zero_hides_rejection:
  "\<not> whitelisted (BinOp (BinOp (Constant (CNum (PyInt 1))) Div (Constant (CNum (PyInt 0)))) Add
                     (Call (Name ''abs'') [Constant (CNum (PyInt 2))] []) :: rat expr)
   \<and> calculate
        (parse_as (BinOp (BinOp (Constant (CNum (PyInt 1))) Div (Constant (CNum (PyInt 0)))) Add
                     (Call (Name ''abs'') [Constant (CNum (PyInt 2))] [])))
        exact_arith ''1/0 + abs(2)''
      = \<lparr>success = False, result = None, error = Some ''Cannot divide by zero, mate!''\<rparr>
   \<and> \<not> invalid_expression_failure
         (calculate
            (parse_as (BinOp (BinOp (Constant (CNum (PyInt 1))) Div (Constant (CNum (PyInt 0)))) Add
                         (Call (Name ''abs'') [Constant (CNum (PyInt 2))] [])))
            exact_arith ''1/0 + abs(2)'')
   \<and> py_parse exact_arith ''1 / 0 % 2''
      = Inr (BinOp (BinOp (Constant (CNum (PyInt 1))) Div (Constant (CNum (PyInt 0)))) Mod
               (Constant (CNum (PyInt 2))))
   \<and> calculate (py_parse exact_arith) exact_arith ''1 / 0 % 2''
      = \<lparr>success = False, result = None, error = Some ''Cannot divide by zero, mate!''\<rparr>"
proof -
  have a: "calculate
        (parse_as (BinOp (BinOp (Constant (CNum (PyInt 1))) Div (Constant (CNum (PyInt 0)))) Add
                     (Call (Name ''abs'') [Constant (CNum (PyInt 2))] [])))
        exact_arith ''1/0 + abs(2)''
      = \<lparr>success = False, result = None, error = Some ''Cannot divide by zero, mate!''\<rparr>"
    by (simp add: calculate_def parse_as_def calculate_except_def)
  have b: "py_parse exact_arith ''1 / 0 % 2''
      = Inr (BinOp (BinOp (Constant (CNum (PyInt 1))) Div (Constant (CNum (PyInt 0)))) Mod
               (Constant (CNum (PyInt 2))))"
    by code_simp
  have c: "calculate (py_parse exact_arith) exact_arith ''1 / 0 % 2''
      = \<lparr>success = False, result = None, error = Some ''Cannot divide by zero, mate!''\<rparr>"
    by code_simp
  show ?thesis
    unfolding a b c by (simp add: invalid_expression_failure_def)
qed

lemma safe_eval_int_arith: "int_arith t \<Longrightarrow> safe_eval fl t = Inr (PyInt (math_value t))"
proof (induction t)
  case (Constant c)
  then show ?case
  proof (cases c)
    case (CNum n)
    with Constant show ?thesis by (cases n) auto
  qed auto
next
  case (BinOp l op r)
  then show ?case by (cases op) auto
next
  case (UnaryOp op e)
  then show ?case by (cases op) auto
qed auto

text \<open>
  Claim C2 (amended). For every input whose tree is exact integer arithmetic (integer
  literals, \<^verbatim>\<open>+ - *\<close>, unary minus, \<^verbatim>\<open>**\<close> with a non-negative exponent),
  \<^verbatim>\<open>calculate\<close> succeeds with the mathematical value. The power operator of
  \<^verbatim>\<open>calculate\<close> is Python's \<^verbatim>\<open>**\<close>; under Python's grammar it binds tightest and to
  the right, then unary minus, then \<^verbatim>\<open>* /\<close>, then \<^verbatim>\<open>+ -\<close>, and parentheses override.
  The caret is a power only through \<^verbatim>\<open>extract_and_calculate\<close>, which rewrites it.
  (The interpreter's limits on recursion depth and memory are not part of the model.)
\<close>

theorem calculate_integer_arithmetic:
  "(\<forall>ast_parse (fl :: 'x arith) s t.
      ast_parse (strip s) = Inr t \<and> int_arith t \<longrightarrow>
      calculate ast_parse fl s
        = \<lparr>success = True, result = Some (PyInt (math_value t)), error = None\<rparr>)
   \<and> calculate (py_parse exact_arith) exact_arith ''(3 + 5) * 2''
       = \<lparr>success = True, result = Some (PyInt 16), error = None\<rparr>
   \<and> calculate (py_parse exact_arith) exact_arith ''2 ** 3''
       = \<lparr>success = True, result = Some (PyInt 8), error = None\<rparr>
   \<and> calculate (py_parse exact_arith) exact_arith ''10 - 5 * 2''
       = \<lparr>success = True, result = Some (PyInt 0), error = None\<rparr>
   \<and> calculate (py_parse exact_arith) exact_arith ''-2 ** 2''
       = \<lparr>success = True, result = Some (PyInt (- 4)), error = None\<rparr>
   \<and> calculate (py_parse exact_arith) exact_arith ''2 ** 3 ** 2''
       = \<lparr>success = True, result = Some (PyInt 512), error = None\<rparr>
   \<and> extract_and_calculate (py_parse exact_arith) exact_arith ''calculate 2 ^ 3''
       = Some \<lparr>success = True, result = Some (PyInt 8), error = None\<rparr>"
proof -
  have general: "\<forall>ast_parse (fl :: 'x arith) s t.
      ast_parse (strip s) = Inr t \<and> int_arith t \<longrightarrow>
      calculate ast_parse fl s
        = \<lparr>success = True, result = Some (PyInt (math_value t)), error = None\<rparr>"
    by (simp add: calculate_def safe_eval_int_arith)
  have e1: "calculate (py_parse exact_arith) exact_arith ''(3 + 5) * 2''
       = \<lparr>success = True, result = Some (PyInt 16), error = None\<rparr>"
    by code_simp
  have e2: "calculate (py_parse exact_arith) exact_arith ''2 ** 3''
       = \<lparr>success = True, result = Some (PyInt 8), error = None\<rparr>"
    by code_simp
  have e3: "calculate (py_parse exact_arith) exact_arith ''10 - 5 * 2''
       = \<lparr>success = True, result = Some (PyInt 0), error = None\<rparr>"
    by code_simp
  have e4: "calculate (py_parse exact_arith) exact_arith ''-2 ** 2''
       = \<lparr>success = True, result = Some (PyInt (- 4)), error = None\<rparr>"
    by code_simp
  have e5: "calculate (py_parse exact_arith) exact_arith ''2 ** 3 ** 2''
       = \<lparr>success = True, result = Some (PyInt 512), error = None\<rparr>"
    by code_simp
  have e6: "extract_and_calculate (py_parse exact_arith) exact_arith ''calculate 2 ^ 3''
       = Some \<lparr>success = True, result = Some (PyInt 8), error = None\<rparr>"
    by code_simp
  show ?thesis
    using general e1 e2 e3 e4 e5 e6 by (intro conjI)
qed

text \<open>The theorem at the input \<^verbatim>\<open> 7 - 2 * (1 + 2) \<close>.\<close>

theorem calculate_integer_arithmetic_witness:
  "py_parse exact_arith (strip '' 7 - 2 * (1 + 2) '')
     = Inr (BinOp (Constant (CNum (PyInt 7))) Sub
              (BinOp (Constant (CNum (PyInt 2))) Mult
                 (BinOp (Constant (CNum (PyInt 1))) Add (Constant (CNum (PyInt 2))))))
   \<and> int_arith (BinOp (Constant (CNum (PyInt 7))) Sub
              (BinOp (Constant (CNum (PyInt 2))) Mult
                 (BinOp (Constant (CNum (PyInt 1))) Add (Constant (CNum (PyInt 2))))) :: rat expr)
   \<and> calculate (py_parse exact_arith) exact_arith '' 7 - 2 * (1 + 2) ''
       = \<lparr>success = True, result = Some (PyInt 1), error = None\<rparr>"
proof -
  let ?t = "BinOp (Constant (CNum (PyInt 7))) Sub
              (BinOp (Constant (CNum (PyInt 2))) Mult
                 (BinOp (Constant (CNum (PyInt 1))) Add (Constant (CNum (PyInt 2))))) :: rat expr"
  have p: "py_parse exact_arith (strip '' 7 - 2 * (1 + 2) '') = Inr ?t"
    by code_simp
  have i: "int_arith ?t"
    by simp
  have "calculate (py_parse exact_arith) exact_arith '' 7 - 2 * (1 + 2) ''
        = \<lparr>success = True, result = Some (PyInt (math_value ?t)), error = None\<rparr>"
    using calculate_integer_arithmetic p i by blast
  then show ?thesis
    using p i by simp
qed

text \<open>
  Claim C2 as stated fails: \<^verbatim>\<open>calculate("2 ^ 3")\<close> is not 8. Python parses the caret as
  the bitwise exclusive or, which is not in the table of operators.
\<close>

theorem caret_is_not_power_for_calculate:
  "calculate (py_parse exact_arith) exact_arith ''2 ^ 3''
     = \<lparr>success = False, result = None,
        error = Some (''Invalid expression: Unsupported operation: <class ''
                      @ [CHR 0x27] @ ''ast.BitXor'' @ [CHR 0x27] @ ''>'')\<rparr>
   \<and> calculate (py_parse exact_arith) exact_arith ''2 ^ 3''
     \<noteq> \<lparr>success = True, result = Some (PyInt 8), error = None\<rparr>"
proof -
  have "calculate (py_parse exact_arith) exact_arith ''2 ^ 3''
     = \<lparr>success = False, result = None,
        error = Some (''Invalid expression: Unsupported operation: <class ''
                      @ [CHR 0x27] @ ''ast.BitXor'' @ [CHR 0x27] @ ''>'')\<rparr>"
    by code_simp
  then show ?thesis by simp
qed






section \<open>Properties of the extraction\<close>


























section \<open>Properties of the chatbot\<close>

lemma length_str_nat: "1 \<le> k \<Longrightarrow> k < length (str_nat n) \<longleftrightarrow> 10 ^ k \<le> n"
proof (induction n arbitrary: k rule: str_nat.induct)
  case (1 n)
  show ?case
  proof (cases "n < 10")
    case True
    have "(10::nat) ^ 1 \<le> 10 ^ k" using 1(2) by (intro power_increasing) auto
    with True 1(2) show ?thesis by (subst str_nat.simps) simp
  next
    case False
    have len: "length (str_nat n) = Suc (length (str_nat (n div 10)))"
      using False by (subst str_nat.simps) simp
    show ?thesis
    proof (cases "k = 1")
      case True
      have "0 < length (str_nat (n div 10))" by (subst str_nat.simps) simp
      with True False len show ?thesis by simp
    next
      case k: False
      with 1(2) obtain j where j: "k = Suc j" "1 \<le> j" by (cases k) auto
      from 1(1)[OF False j(2)]
      have "j < length (str_nat (n div 10)) \<longleftrightarrow> 10 ^ j \<le> n div 10" .
      moreover have "10 ^ j \<le> n div 10 \<longleftrightarrow> 10 ^ Suc j \<le> n"
        by (simp add: less_eq_div_iff_mult_less_eq mult.commute)
      ultimately show ?thesis using len j by simp
    qed
  qed
qed

lemma str_int_raises:
  "(\<exists>e. str_int i = Inl e) \<longleftrightarrow> 10 ^ int_max_str_digits \<le> \<bar>i\<bar>"
proof -
  have "int_max_str_digits < length (str_nat (nat \<bar>i\<bar>))
        \<longleftrightarrow> 10 ^ int_max_str_digits \<le> nat \<bar>i\<bar>"
    by (rule length_str_nat) (simp add: int_max_str_digits_def)
  also have "\<dots> \<longleftrightarrow> 10 ^ int_max_str_digits \<le> \<bar>i\<bar>"
    by (simp add: le_nat_iff)
  finally show ?thesis by (auto simp: str_int_def Let_def)
qed

lemma str_int_class: "str_int i = Inl e \<Longrightarrow> exc_class e = ValueError"
  by (auto simp: str_int_def Let_def split: if_splits)

lemma format_calculator_response_raises:
  "(\<exists>e. format_calculator_response fl r True = Inl e)
   \<longleftrightarrow> (\<exists>i. success r \<and> result r = Some (PyInt i) \<and> 10 ^ int_max_str_digits \<le> \<bar>i\<bar>)"
proof (cases "success r")
  case False
  then show ?thesis by (simp add: format_calculator_response_def Let_def)
next
  case True
  show ?thesis
  proof (cases "result r")
    case None
    with True show ?thesis by (simp add: format_calculator_response_def)
  next
    case (Some v)
    show ?thesis
    proof (cases v)
      case (PyInt i)
      have "(\<exists>e. format_calculator_response fl r True = Inl e) \<longleftrightarrow> (\<exists>e. str_int i = Inl e)"
        using True Some PyInt
        by (auto simp: format_calculator_response_def split: sum.splits)
      with True Some PyInt show ?thesis by (simp add: str_int_raises)
    next
      case (PyFloat x)
      with True Some show ?thesis by (simp add: format_calculator_response_def)
    next
      case (PyComplex z)
      with True Some show ?thesis by (simp add: format_calculator_response_def)
    qed
  qed
qed

lemma format_calculator_response_class:
  "format_calculator_response fl r p = Inl e \<Longrightarrow> exc_class e = ValueError"
proof -
  assume a: "format_calculator_response fl r p = Inl e"
  then obtain v where v: "result r = Some v" "str_num fl v = Inl e"
    by (auto simp: format_calculator_response_def Let_def split: if_splits option.splits sum.splits)
  then obtain i where "v = PyInt i" by (cases v) auto
  with v show ?thesis by (simp add: str_int_class)
qed

lemma format_calculator_response_not_empty:
  "format_calculator_response fl r True = Inr s \<Longrightarrow> s \<noteq> []"
  by (auto simp: format_calculator_response_def Let_def split: if_splits sum.splits)

lemma chat_calculation:
  assumes "extract_and_calculate ast_parse fl msg = Some r"
    and "format_calculator_response fl r True = Inr s"
  shows "chat ast_parse fl self ev msg =
         \<lparr>returned = Inr s,
          memory_after = add_message (add_message (memory self) ''user'' msg (now_user ev))
                           ''assistant'' s (now_reply ev),
          calls = []\<rparr>"
  using assms format_calculator_response_not_empty[OF assms(2)]
  by (simp add: chat_def check_for_calculation_def Let_def)

lemma chat_calculation_raises:
  assumes "extract_and_calculate ast_parse fl msg = Some r"
    and "format_calculator_response fl r True = Inl e"
  shows "chat ast_parse fl self ev msg =
         \<lparr>returned = Inl e,
          memory_after = add_message (memory self) ''user'' msg (now_user ev),
          calls = []\<rparr>"
  using assms by (simp add: chat_def check_for_calculation_def Let_def)

lemma chat_calculation_calls:
  assumes "extract_and_calculate ast_parse fl msg = Some r"
  shows "calls (chat ast_parse fl self ev msg) = []"
proof (cases "format_calculator_response fl r True")
  case (Inl e)
  from chat_calculation_raises[OF assms Inl, of self ev] show ?thesis by simp
next
  case (Inr s)
  from chat_calculation[OF assms Inr, of self ev] show ?thesis by simp
qed

text \<open>
  The power \<^verbatim>\<open>10 ** 4300\<close> has 4301 digits: \<^verbatim>\<open>calculate\<close> evaluates it, and its
  conversion to text raises.
\<close>

lemma calculate_power:
  "calculate (py_parse exact_arith) exact_arith ''10 ** 4300''
   = \<lparr>success = True, result = Some (PyInt (10 ^ 4300)), error = None\<rparr>"
proof -
  have p: "py_parse exact_arith (strip ''10 ** 4300'')
           = Inr (BinOp (Constant (CNum (PyInt 10))) Pow_op (Constant (CNum (PyInt 4300))))"
    by code_simp
  show ?thesis
    unfolding calculate_def p by (simp del: power_numeral)
qed

lemma format_power:
  "format_calculator_response fl
     \<lparr>success = True, result = Some (PyInt (10 ^ 4300)), error = None\<rparr> True
   = Inl (PyExc ValueError
            (''Exceeds the limit (4300 digits) for integer string conversion; ''
             @ ''use sys.set_int_max_str_digits() to increase the limit''))"
proof -
  have "(10::int) ^ int_max_str_digits \<le> \<bar>10 ^ 4300\<bar>"
    unfolding int_max_str_digits_def by (simp del: power_numeral)
  then obtain e where e: "str_int (10 ^ 4300) = Inl e"
    using str_int_raises by blast
  have m: "str_nat int_max_str_digits = ''4300''"
    unfolding int_max_str_digits_def by code_simp
  from e have "str_int (10 ^ 4300) = Inl (PyExc ValueError
            (''Exceeds the limit (4300 digits) for integer string conversion; ''
             @ ''use sys.set_int_max_str_digits() to increase the limit''))"
    unfolding str_int_def Let_def m by (simp del: power_numeral split: if_splits)
  then show ?thesis
    by (simp add: format_calculator_response_def del: power_numeral)
qed

lemma extract_power:
  assumes "re_search (patterns ! 0) (lower msg) = Some ''10 ^ 4300''"
  shows "extract_and_calculate (py_parse exact_arith) exact_arith msg
         = Some \<lparr>success = True, result = Some (PyInt (10 ^ 4300)), error = None\<rparr>"
proof -
  have e: "replace_caret (strip ''10 ^ 4300'') = ''10 ** 4300''"
    by code_simp
  have p: "patterns = (patterns ! 0) # tl patterns"
    by (simp add: patterns_def)
  show ?thesis
    unfolding extract_and_calculate_def
    by (subst p) (simp add: assms e calculate_power del: power_numeral)
qed

lemma chat_no_calculation:
  assumes "extract_and_calculate ast_parse fl msg = None"
  shows "chat ast_parse fl self ev msg =
         (case model self of
            None \<Rightarrow> chat_offline self ev (add_message (memory self) ''user'' msg (now_user ev)) msg
          | Some generate \<Rightarrow>
              chat_backend generate self ev (add_message (memory self) ''user'' msg (now_user ev)) msg)"
  using assms by (simp add: chat_def check_for_calculation_def Let_def)

lemma add_message_last:
  assumes "0 < max_turns m"
  shows "conversation_history (add_message m r c now) \<noteq> [] \<and>
         last (conversation_history (add_message m r c now))
           = \<lparr>role = r, content = c, timestamp = now\<rparr>"
proof -
  let ?h = "conversation_history m @ [\<lparr>role = r, content = c, timestamp = now\<rparr>]"
  have h: "conversation_history (add_message m r c now) = drop (length ?h - nat (2 * max_turns m)) ?h"
    using add_message_history[OF assms, of r c now] by (simp add: Let_def)
  have lt: "length ?h - nat (2 * max_turns m) < length ?h"
    using assms by simp
  then have ne: "drop (length ?h - nat (2 * max_turns m)) ?h \<noteq> []" by simp
  have "last (drop (length ?h - nat (2 * max_turns m)) ?h) = last ?h"
    using lt by (rule last_drop)
  with ne h show ?thesis by simp
qed

lemma format_fact_field:
  "CHR ''{'' \<notin> set p \<Longrightarrow> format_fact (p @ ''{fact}'') f = p @ f"
  by (induction p) auto

lemma length_templates: "length templates = 6"
  by (simp add: templates_def)

lemma length_fallbacks: "length fallbacks = 6"
  by (simp add: fallbacks_def)

lemma templates_nth_field:
  assumes "i < 6"
  shows "format_fact (templates ! i) f = take (length (templates ! i) - 6) (templates ! i) @ f"
proof -
  have general: "\<And>p. CHR ''{'' \<notin> set p \<Longrightarrow>
      format_fact (p @ ''{fact}'') f = take (length (p @ ''{fact}'') - 6) (p @ ''{fact}'') @ f"
    by (simp add: format_fact_field)
  consider "i = 0" | "i = 1" | "i = 2" | "i = 3" | "i = 4" | "i = 5"
    using assms by linarith
  then show ?thesis
  proof cases
    case 1
    have t: "templates ! 0 = ''Arr, me compass points to this fact: '' @ ''{fact}''"
      by (simp add: templates_def)
    show ?thesis
      unfolding 1 t by (rule general) simp
  next
    case 2
    have t: "templates ! 1 = ''By the powers! Did ye know? '' @ ''{fact}''"
      by (simp add: templates_def)
    show ?thesis
      unfolding 2 t by (rule general) simp
  next
    case 3
    have t: "templates ! 2 = ''Savvy? '' @ ''{fact}''"
      by (simp add: templates_def)
    show ?thesis
      unfolding 3 t by (rule general) simp
  next
    case 4
    have t: "templates ! 3 = (''The Black Pearl'' @ [CHR 0x27] @ ''s logbook says: '') @ ''{fact}''"
      by (simp add: templates_def)
    show ?thesis
      unfolding 4 t by (rule general) simp
  next
    case 5
    have t: "templates ! 4 = ''Interesting... remarkably like this: '' @ ''{fact}''"
      by (simp add: templates_def)
    show ?thesis
      unfolding 5 t by (rule general) simp
  next
    case 6
    have t: "templates ! 5 = ''Aye, that reminds me of when '' @ ''{fact}''"
      by (simp add: templates_def)
    show ?thesis
      unfolding 6 t by (rule general) simp
  qed
qed

lemma distinct_templates: "distinct templates"
  by (simp add: templates_def)

lemma distinct_fallbacks: "distinct fallbacks"
  by (simp add: fallbacks_def)

lemma query_raises:
  "query vs q n = Inl e \<longleftrightarrow>
   (encode vs q = Inl e \<or> (\<exists>v. encode vs q = Inr v \<and> collection_query vs v n = Inl e))"
  by (auto simp: query_def split: sum.splits query_result.splits option.splits list.splits)

lemma build_context_prompt_raises:
  "query vs msg 2 = Inl e \<Longrightarrow> build_context_prompt vs m msg = Inl e"
  by (simp add: build_context_prompt_def)

lemma build_context_prompt_returns:
  "query vs msg 2 = Inr facts \<Longrightarrow> \<exists>prompt. build_context_prompt vs m msg = Inr prompt"
  by (simp add: build_context_prompt_def)

lemma chat_offline_raises:
  assumes "extract_and_calculate ast_parse fl msg = None" and "model self = None"
    and "query (vector_store self) msg 1 = Inl e"
  shows "chat ast_parse fl self ev msg =
         \<lparr>returned = Inl e, memory_after = user_turn (memory self) ev msg,
          calls = [Retrieval msg 1]\<rparr>"
  using assms by (simp add: chat_no_calculation chat_offline_def user_turn_def)

lemma chat_offline_returns:
  assumes "extract_and_calculate ast_parse fl msg = None" and "model self = None"
    and "query (vector_store self) msg 1 = Inr facts"
  shows "chat ast_parse fl self ev msg =
         (let response = (if facts \<noteq> [] then format_fact (templates ! draw ev) (hd facts)
                          else fallbacks ! draw ev)
          in \<lparr>returned = Inr (response @ '' [Offline Mode]''),
              memory_after = add_message (user_turn (memory self) ev msg) ''assistant''
                               (response @ '' [Offline Mode]'') (now_reply ev),
              calls = [Retrieval msg 1]\<rparr>)"
  using assms by (simp add: chat_no_calculation chat_offline_def user_turn_def Let_def)

lemma chat_backend_raises:
  assumes "extract_and_calculate ast_parse fl msg = None" and "model self = Some generate"
    and "build_context_prompt (vector_store self) (user_turn (memory self) ev msg) msg = Inl e"
  shows "chat ast_parse fl self ev msg =
         \<lparr>returned = Inl e, memory_after = user_turn (memory self) ev msg,
          calls = [Retrieval msg 2]\<rparr>"
  using assms by (simp add: chat_no_calculation chat_backend_def user_turn_def)

lemma chat_backend_failed:
  assumes "extract_and_calculate ast_parse fl msg = None" and "model self = Some generate"
    and "build_context_prompt (vector_store self) (user_turn (memory self) ev msg) msg = Inr prompt"
    and "generate prompt = Inl e"
  shows "chat ast_parse fl self ev msg =
         \<lparr>returned = Inr (apology e), memory_after = user_turn (memory self) ev msg,
          calls = [Retrieval msg 2, Generate prompt]\<rparr>"
  using assms by (simp add: chat_no_calculation chat_backend_def user_turn_def)

lemma chat_backend_answered:
  assumes "extract_and_calculate ast_parse fl msg = None" and "model self = Some generate"
    and "build_context_prompt (vector_store self) (user_turn (memory self) ev msg) msg = Inr prompt"
    and "generate prompt = Inr answer"
  shows "chat ast_parse fl self ev msg =
         \<lparr>returned = Inr answer,
          memory_after = add_message (user_turn (memory self) ev msg) ''assistant'' answer
                           (now_reply ev),
          calls = [Retrieval msg 2, Generate prompt]\<rparr>"
  using assms by (simp add: chat_no_calculation chat_backend_def user_turn_def)

text \<open>
  Claim C8 (amended). Every call of \<^verbatim>\<open>chat\<close> first records the user message: the
  memory afterwards is the memory with the user message added, or that memory with one
  assistant message added. When the extraction matches, no call is made to the retrieval
  index or to the backend model, and the outcome does not depend on them. When the result
  can be formatted, \<^verbatim>\<open>chat\<close> returns the formatted response and the memory has gained
  exactly the user message and that response as the assistant message (the window keeping
  the last \<open>2 * max_turns\<close> messages). When formatting raises, the exception leaves
  \<^verbatim>\<open>chat\<close> and the memory has gained the user message only. Formatting raises exactly
  for a successful result that is an int of more than \<open>int_max_str_digits\<close> digits, and
  the exception is a ValueError.
\<close>

theorem chat_calculation_path:
  "(\<forall>r. extract_and_calculate ast_parse fl msg = Some r \<longrightarrow>
      (\<forall>s. format_calculator_response fl r True = Inr s \<longrightarrow>
         chat ast_parse fl self ev msg
           = \<lparr>returned = Inr s,
              memory_after =
                add_messages (memory self)
                  [(''user'', msg, now_user ev), (''assistant'', s, now_reply ev)],
              calls = []\<rparr>
         \<and> (0 < max_turns (memory self)
              \<and> int (length (conversation_history (memory self))) \<le> 2 * max_turns (memory self) \<longrightarrow>
            conversation_history (memory_after (chat ast_parse fl self ev msg))
              = (let h = conversation_history (memory self)
                         @ [\<lparr>role = ''user'', content = msg, timestamp = now_user ev\<rparr>,
                            \<lparr>role = ''assistant'', content = s, timestamp = now_reply ev\<rparr>]
                 in drop (length h - nat (2 * max_turns (memory self))) h)))
      \<and> (\<forall>e. format_calculator_response fl r True = Inl e \<longrightarrow>
            chat ast_parse fl self ev msg
              = \<lparr>returned = Inl e, memory_after = user_turn (memory self) ev msg, calls = []\<rparr>
            \<and> exc_class e = ValueError)
      \<and> ((\<exists>e. format_calculator_response fl r True = Inl e)
           \<longleftrightarrow> (\<exists>i. success r \<and> result r = Some (PyInt i) \<and> 10 ^ int_max_str_digits \<le> \<bar>i\<bar>))
      \<and> calls (chat ast_parse fl self ev msg) = []
      \<and> (\<forall>other :: 'w sparrow_bot. memory other = memory self \<longrightarrow>
           chat ast_parse fl other ev msg = chat ast_parse fl self ev msg))
   \<and> (memory_after (chat ast_parse fl self ev msg) = user_turn (memory self) ev msg
      \<or> (\<exists>s. memory_after (chat ast_parse fl self ev msg)
               = add_message (user_turn (memory self) ev msg) ''assistant'' s (now_reply ev)))"
proof -
  have first: "memory_after (chat ast_parse fl self ev msg) = user_turn (memory self) ev msg
      \<or> (\<exists>s. memory_after (chat ast_parse fl self ev msg)
               = add_message (user_turn (memory self) ev msg) ''assistant'' s (now_reply ev))"
    by (auto simp: chat_def chat_offline_def chat_backend_def user_turn_def Let_def
             split: option.splits sum.splits)
  have calc: "(\<forall>s. format_calculator_response fl r True = Inr s \<longrightarrow>
         chat ast_parse fl self ev msg
           = \<lparr>returned = Inr s,
              memory_after =
                add_messages (memory self)
                  [(''user'', msg, now_user ev), (''assistant'', s, now_reply ev)],
              calls = []\<rparr>
         \<and> (0 < max_turns (memory self)
              \<and> int (length (conversation_history (memory self))) \<le> 2 * max_turns (memory self) \<longrightarrow>
            conversation_history (memory_after (chat ast_parse fl self ev msg))
              = (let h = conversation_history (memory self)
                         @ [\<lparr>role = ''user'', content = msg, timestamp = now_user ev\<rparr>,
                            \<lparr>role = ''assistant'', content = s, timestamp = now_reply ev\<rparr>]
                 in drop (length h - nat (2 * max_turns (memory self))) h)))
      \<and> (\<forall>e. format_calculator_response fl r True = Inl e \<longrightarrow>
            chat ast_parse fl self ev msg
              = \<lparr>returned = Inl e, memory_after = user_turn (memory self) ev msg, calls = []\<rparr>
            \<and> exc_class e = ValueError)
      \<and> ((\<exists>e. format_calculator_response fl r True = Inl e)
           \<longleftrightarrow> (\<exists>i. success r \<and> result r = Some (PyInt i) \<and> 10 ^ int_max_str_digits \<le> \<bar>i\<bar>))
      \<and> calls (chat ast_parse fl self ev msg) = []
      \<and> (\<forall>other :: 'w sparrow_bot. memory other = memory self \<longrightarrow>
           chat ast_parse fl other ev msg = chat ast_parse fl self ev msg)"
    if r: "extract_and_calculate ast_parse fl msg = Some r" for r
  proof -
    have returns: "chat ast_parse fl self ev msg
           = \<lparr>returned = Inr s,
              memory_after =
                add_messages (memory self)
                  [(''user'', msg, now_user ev), (''assistant'', s, now_reply ev)],
              calls = []\<rparr>
         \<and> (0 < max_turns (memory self)
              \<and> int (length (conversation_history (memory self))) \<le> 2 * max_turns (memory self) \<longrightarrow>
            conversation_history (memory_after (chat ast_parse fl self ev msg))
              = (let h = conversation_history (memory self)
                         @ [\<lparr>role = ''user'', content = msg, timestamp = now_user ev\<rparr>,
                            \<lparr>role = ''assistant'', content = s, timestamp = now_reply ev\<rparr>]
                 in drop (length h - nat (2 * max_turns (memory self))) h))"
      if f: "format_calculator_response fl r True = Inr s" for s
    proof (intro conjI impI)
      show eq: "chat ast_parse fl self ev msg
           = \<lparr>returned = Inr s,
              memory_after =
                add_messages (memory self)
                  [(''user'', msg, now_user ev), (''assistant'', s, now_reply ev)],
              calls = []\<rparr>"
        by (simp add: chat_calculation[OF r f])
      show "conversation_history (memory_after (chat ast_parse fl self ev msg))
              = (let h = conversation_history (memory self)
                         @ [\<lparr>role = ''user'', content = msg, timestamp = now_user ev\<rparr>,
                            \<lparr>role = ''assistant'', content = s, timestamp = now_reply ev\<rparr>]
                 in drop (length h - nat (2 * max_turns (memory self))) h)"
        if "0 < max_turns (memory self)
              \<and> int (length (conversation_history (memory self))) \<le> 2 * max_turns (memory self)"
        using add_messages_window[of "memory self"
                "[(''user'', msg, now_user ev), (''assistant'', s, now_reply ev)]"] that
        unfolding eq by (simp add: mk_message_def Let_def)
    qed
    have raises: "chat ast_parse fl self ev msg
              = \<lparr>returned = Inl e, memory_after = user_turn (memory self) ev msg, calls = []\<rparr>
            \<and> exc_class e = ValueError"
      if f: "format_calculator_response fl r True = Inl e" for e
      using chat_calculation_raises[OF r f, of self ev] format_calculator_response_class[OF f]
      by (simp add: user_turn_def)
    have same: "chat ast_parse fl other ev msg = chat ast_parse fl self ev msg"
      if "memory other = memory self" for other :: "'w sparrow_bot"
    proof (cases "format_calculator_response fl r True")
      case (Inl e)
      from chat_calculation_raises[OF r Inl, of other ev] chat_calculation_raises[OF r Inl, of self ev]
      show ?thesis using that by simp
    next
      case (Inr s)
      from chat_calculation[OF r Inr, of other ev] chat_calculation[OF r Inr, of self ev]
      show ?thesis using that by simp
    qed
    show ?thesis
    proof (intro conjI allI impI)
      show "(\<exists>e. format_calculator_response fl r True = Inl e)
           \<longleftrightarrow> (\<exists>i. success r \<and> result r = Some (PyInt i) \<and> 10 ^ int_max_str_digits \<le> \<bar>i\<bar>)"
        by (rule format_calculator_response_raises)
      show "calls (chat ast_parse fl self ev msg) = []"
        by (rule chat_calculation_calls[OF r])
    qed (use returns raises same in blast)+
  qed
  show ?thesis
  proof (intro conjI allI impI)
    show "memory_after (chat ast_parse fl self ev msg) = user_turn (memory self) ev msg
      \<or> (\<exists>s. memory_after (chat ast_parse fl self ev msg)
               = add_message (user_turn (memory self) ev msg) ''assistant'' s (now_reply ev))"
      by (rule first)
  qed (use calc in blast)+
qed

text \<open>
  The theorem at \<^verbatim>\<open>Calculate 10 * 5\<close>, with an index whose every query would raise.
\<close>

theorem chat_calculation_path_witness:
  "extract_and_calculate (py_parse exact_arith) exact_arith ''Calculate 10 * 5''
     = Some \<lparr>success = True, result = Some (PyInt 50), error = None\<rparr>
   \<and> format_calculator_response exact_arith
        \<lparr>success = True, result = Some (PyInt 50), error = None\<rparr> True
     = Inr ''By me calculations, that be **50**, savvy?''
   \<and> chat (py_parse exact_arith) exact_arith (SparrowBot None failing_store) sample_env
        ''Calculate 10 * 5''
     = \<lparr>returned = Inr ''By me calculations, that be **50**, savvy?'',
        memory_after =
          \<lparr>max_turns = 10,
           conversation_history =
             [\<lparr>role = ''user'', content = ''Calculate 10 * 5'',
               timestamp = ''2024-01-01T10:00:00''\<rparr>,
              \<lparr>role = ''assistant'', content = ''By me calculations, that be **50**, savvy?'',
               timestamp = ''2024-01-01T10:00:01''\<rparr>]\<rparr>,
        calls = []\<rparr>"
proof -
  let ?r = "\<lparr>success = True, result = Some (PyInt 50), error = None\<rparr> :: rat calc_result"
  have r: "extract_and_calculate (py_parse exact_arith) exact_arith ''Calculate 10 * 5'' = Some ?r"
    by code_simp
  have f: "format_calculator_response exact_arith ?r True
             = Inr ''By me calculations, that be **50**, savvy?''"
    by code_simp
  have m: "add_messages (memory (SparrowBot None failing_store))
             [(''user'', ''Calculate 10 * 5'', now_user sample_env),
              (''assistant'', ''By me calculations, that be **50**, savvy?'', now_reply sample_env)]
           = \<lparr>max_turns = 10,
              conversation_history =
                [\<lparr>role = ''user'', content = ''Calculate 10 * 5'',
                  timestamp = ''2024-01-01T10:00:00''\<rparr>,
                 \<lparr>role = ''assistant'', content = ''By me calculations, that be **50**, savvy?'',
                  timestamp = ''2024-01-01T10:00:01''\<rparr>]\<rparr>"
    by code_simp
  from chat_calculation_path
         [of "py_parse exact_arith" exact_arith "''Calculate 10 * 5''"
             "SparrowBot None failing_store" sample_env,
          THEN conjunct1, rule_format, OF r, THEN conjunct1, rule_format, OF f, THEN conjunct1]
  show ?thesis
    using r f unfolding m by simp
qed

text \<open>
  Claim C8 as stated fails at \<^verbatim>\<open>calculate 10 ^ 4300\<close>: the extraction matches and the
  calculation succeeds with an int of 4301 digits, formatting it raises ValueError, and
  \<^verbatim>\<open>chat\<close> neither returns the formatted response nor records an assistant message.
\<close>

theorem formatting_error_leaves_chat:
  "extract_and_calculate (py_parse exact_arith) exact_arith ''calculate 10 ^ 4300''
     = Some \<lparr>success = True, result = Some (PyInt (10 ^ 4300)), error = None\<rparr>
   \<and> chat (py_parse exact_arith) exact_arith (SparrowBot None pearl_store) sample_env
        ''calculate 10 ^ 4300''
     = \<lparr>returned =
          Inl (PyExc ValueError
                 (''Exceeds the limit (4300 digits) for integer string conversion; ''
                  @ ''use sys.set_int_max_str_digits() to increase the limit'')),
        memory_after =
          \<lparr>max_turns = 10,
           conversation_history =
             [\<lparr>role = ''user'', content = ''calculate 10 ^ 4300'',
               timestamp = ''2024-01-01T10:00:00''\<rparr>]\<rparr>,
        calls = []\<rparr>"
proof -
  have g: "re_search (patterns ! 0) (lower ''calculate 10 ^ 4300'') = Some ''10 ^ 4300''"
    by code_simp
  have m: "add_message (memory (SparrowBot None pearl_store)) ''user'' ''calculate 10 ^ 4300''
             (now_user sample_env)
           = \<lparr>max_turns = 10,
              conversation_history =
                [\<lparr>role = ''user'', content = ''calculate 10 ^ 4300'',
                  timestamp = ''2024-01-01T10:00:00''\<rparr>]\<rparr>"
    by code_simp
  from chat_calculation_raises[OF extract_power[OF g] format_power,
         of "SparrowBot None pearl_store" sample_env]
  show ?thesis
    unfolding m using extract_power[OF g] by (intro conjI)
qed

text \<open>
  Claim C9. With no backend model and a message that is not a calculation, every string
  \<^verbatim>\<open>chat\<close> returns ends with the tag \<^verbatim>\<open> [Offline Mode]\<close>. With a retrieved fact the
  response is the template chosen by the draw with the fact in place of its field, which is
  the text of the template before the field followed by the fact; with no fact it is the
  fallback line chosen by the draw. The draw is the index \<^verbatim>\<open>random.choice\<close> draws
  uniformly below 6; the six templates are distinct and so are the six fallback lines, so
  each is chosen by exactly one draw.
\<close>

theorem chat_offline_mode:
  "extract_and_calculate ast_parse fl msg = None \<and> model self = None \<longrightarrow>
     (\<forall>s. returned (chat ast_parse fl self ev msg) = Inr s \<longrightarrow>
           (\<exists>response. s = response @ '' [Offline Mode]''))
     \<and> (\<forall>facts. query (vector_store self) msg 1 = Inr facts \<and> facts \<noteq> [] \<and> draw ev < 6 \<longrightarrow>
           returned (chat ast_parse fl self ev msg)
             = Inr (format_fact (templates ! draw ev) (hd facts) @ '' [Offline Mode]'')
           \<and> templates ! draw ev \<in> set templates
           \<and> format_fact (templates ! draw ev) (hd facts)
               = take (length (templates ! draw ev) - 6) (templates ! draw ev) @ hd facts)
     \<and> (query (vector_store self) msg 1 = Inr [] \<and> draw ev < 6 \<longrightarrow>
           returned (chat ast_parse fl self ev msg) = Inr (fallbacks ! draw ev @ '' [Offline Mode]'')
           \<and> fallbacks ! draw ev \<in> set fallbacks)
     \<and> calls (chat ast_parse fl self ev msg) = [Retrieval msg 1]
     \<and> length templates = 6 \<and> distinct templates
     \<and> length fallbacks = 6 \<and> distinct fallbacks"
proof (intro impI)
  assume a: "extract_and_calculate ast_parse fl msg = None \<and> model self = None"
  then have x: "extract_and_calculate ast_parse fl msg = None" and md: "model self = None"
    by simp_all
  have tagged: "\<forall>s. returned (chat ast_parse fl self ev msg) = Inr s \<longrightarrow>
           (\<exists>response. s = response @ '' [Offline Mode]'')"
  proof (intro allI impI)
    fix s assume s: "returned (chat ast_parse fl self ev msg) = Inr s"
    show "\<exists>response. s = response @ '' [Offline Mode]''"
    proof (cases "query (vector_store self) msg 1")
      case (Inl e)
      from chat_offline_raises[OF x md Inl, of ev] s show ?thesis by simp
    next
      case (Inr facts)
      from chat_offline_returns[OF x md Inr, of ev] s show ?thesis
        by (auto simp: Let_def)
    qed
  qed
  have withfact: "\<forall>facts. query (vector_store self) msg 1 = Inr facts \<and> facts \<noteq> [] \<and> draw ev < 6 \<longrightarrow>
           returned (chat ast_parse fl self ev msg)
             = Inr (format_fact (templates ! draw ev) (hd facts) @ '' [Offline Mode]'')
           \<and> templates ! draw ev \<in> set templates
           \<and> format_fact (templates ! draw ev) (hd facts)
               = take (length (templates ! draw ev) - 6) (templates ! draw ev) @ hd facts"
  proof (intro allI impI)
    fix facts
    assume f: "query (vector_store self) msg 1 = Inr facts \<and> facts \<noteq> [] \<and> draw ev < 6"
    then have q: "query (vector_store self) msg 1 = Inr facts" and ne: "facts \<noteq> []"
      and d: "draw ev < 6" by simp_all
    have 1: "returned (chat ast_parse fl self ev msg)
             = Inr (format_fact (templates ! draw ev) (hd facts) @ '' [Offline Mode]'')"
      using chat_offline_returns[OF x md q, of ev] ne by (simp add: Let_def)
    have 2: "templates ! draw ev \<in> set templates"
      using d by (simp add: length_templates)
    show "returned (chat ast_parse fl self ev msg)
             = Inr (format_fact (templates ! draw ev) (hd facts) @ '' [Offline Mode]'')
           \<and> templates ! draw ev \<in> set templates
           \<and> format_fact (templates ! draw ev) (hd facts)
               = take (length (templates ! draw ev) - 6) (templates ! draw ev) @ hd facts"
      using 1 2 templates_nth_field[OF d] by (intro conjI)
  qed
  have nofact: "query (vector_store self) msg 1 = Inr [] \<and> draw ev < 6 \<longrightarrow>
           returned (chat ast_parse fl self ev msg) = Inr (fallbacks ! draw ev @ '' [Offline Mode]'')
           \<and> fallbacks ! draw ev \<in> set fallbacks"
  proof (intro impI)
    assume f: "query (vector_store self) msg 1 = Inr [] \<and> draw ev < 6"
    then have q: "query (vector_store self) msg 1 = Inr []" and d: "draw ev < 6" by simp_all
    show "returned (chat ast_parse fl self ev msg) = Inr (fallbacks ! draw ev @ '' [Offline Mode]'')
           \<and> fallbacks ! draw ev \<in> set fallbacks"
      using chat_offline_returns[OF x md q, of ev] d by (simp add: Let_def length_fallbacks)
  qed
  have cl: "calls (chat ast_parse fl self ev msg) = [Retrieval msg 1]"
  proof (cases "query (vector_store self) msg 1")
    case (Inl e)
    from chat_offline_raises[OF x md Inl, of ev] show ?thesis by simp
  next
    case (Inr facts)
    from chat_offline_returns[OF x md Inr, of ev] show ?thesis by (simp add: Let_def)
  qed
  show "(\<forall>s. returned (chat ast_parse fl self ev msg) = Inr s \<longrightarrow>
           (\<exists>response. s = response @ '' [Offline Mode]''))
     \<and> (\<forall>facts. query (vector_store self) msg 1 = Inr facts \<and> facts \<noteq> [] \<and> draw ev < 6 \<longrightarrow>
           returned (chat ast_parse fl self ev msg)
             = Inr (format_fact (templates ! draw ev) (hd facts) @ '' [Offline Mode]'')
           \<and> templates ! draw ev \<in> set templates
           \<and> format_fact (templates ! draw ev) (hd facts)
               = take (length (templates ! draw ev) - 6) (templates ! draw ev) @ hd facts)
     \<and> (query (vector_store self) msg 1 = Inr [] \<and> draw ev < 6 \<longrightarrow>
           returned (chat ast_parse fl self ev msg) = Inr (fallbacks ! draw ev @ '' [Offline Mode]'')
           \<and> fallbacks ! draw ev \<in> set fallbacks)
     \<and> calls (chat ast_parse fl self ev msg) = [Retrieval msg 1]
     \<and> length templates = 6 \<and> distinct templates
     \<and> length fallbacks = 6 \<and> distinct fallbacks"
    using tagged withfact nofact cl length_templates distinct_templates length_fallbacks
      distinct_fallbacks
    by (intro conjI)
qed

text \<open>
  The theorem at \<^verbatim>\<open>Tell me about the Black Pearl\<close> with the draw 2, for an index with
  facts and for an empty index.
\<close>

theorem chat_offline_mode_witness:
  "extract_and_calculate (py_parse exact_arith) exact_arith ''Tell me about the Black Pearl'' = None
   \<and> model (SparrowBot None pearl_store) = None
   \<and> query (vector_store (SparrowBot None pearl_store)) ''Tell me about the Black Pearl'' 1
       = Inr [''The Black Pearl is the fastest ship in the Caribbean.'']
   \<and> draw sample_env < 6
   \<and> returned (chat (py_parse exact_arith) exact_arith (SparrowBot None pearl_store) sample_env
                 ''Tell me about the Black Pearl'')
       = Inr ''Savvy? The Black Pearl is the fastest ship in the Caribbean. [Offline Mode]''
   \<and> query (vector_store (SparrowBot None empty_store)) ''Tell me about the Black Pearl'' 1 = Inr []
   \<and> returned (chat (py_parse exact_arith) exact_arith (SparrowBot None empty_store) sample_env
                 ''Tell me about the Black Pearl'')
       = Inr ''Did no one come to save me just because they missed me? [Offline Mode]''"
proof -
  let ?msg = "''Tell me about the Black Pearl''"
  have x: "extract_and_calculate (py_parse exact_arith) exact_arith ?msg = None"
    by code_simp
  have md: "model (SparrowBot None pearl_store) = None" "model (SparrowBot None empty_store) = None"
    by (simp_all add: SparrowBot_def)
  have q: "query (vector_store (SparrowBot None pearl_store)) ?msg 1
           = Inr [''The Black Pearl is the fastest ship in the Caribbean.'']"
    by code_simp
  have q0: "query (vector_store (SparrowBot None empty_store)) ?msg 1 = Inr []"
    by code_simp
  have d: "draw sample_env < 6"
    by (simp add: sample_env_def)
  have t: "format_fact (templates ! draw sample_env)
             (hd [''The Black Pearl is the fastest ship in the Caribbean.''])
             @ '' [Offline Mode]''
           = ''Savvy? The Black Pearl is the fastest ship in the Caribbean. [Offline Mode]''"
    by code_simp
  have fb: "fallbacks ! draw sample_env @ '' [Offline Mode]''
           = ''Did no one come to save me just because they missed me? [Offline Mode]''"
    by code_simp
  have 1: "returned (chat (py_parse exact_arith) exact_arith (SparrowBot None pearl_store)
                       sample_env ?msg)
           = Inr ''Savvy? The Black Pearl is the fastest ship in the Caribbean. [Offline Mode]''"
    using chat_offline_mode
            [of "py_parse exact_arith" exact_arith ?msg "SparrowBot None pearl_store" sample_env]
          x md(1) q d t
    by simp
  have 2: "returned (chat (py_parse exact_arith) exact_arith (SparrowBot None empty_store)
                       sample_env ?msg)
           = Inr ''Did no one come to save me just because they missed me? [Offline Mode]''"
    using chat_offline_mode
            [of "py_parse exact_arith" exact_arith ?msg "SparrowBot None empty_store" sample_env]
          x md(2) q0 d fb
    by simp
  show ?thesis
    using x md(1) q d 1 q0 2 by (intro conjI)
qed

lemma apology_distinct:
  assumes "exc_class a = Unauthenticated" and "exc_class b = ResourceExhausted"
    and "exc_class c \<noteq> Unauthenticated" and "exc_class c \<noteq> ResourceExhausted"
  shows "apology a \<noteq> apology b \<and> apology a \<noteq> apology c \<and> apology b \<noteq> apology c"
  using assms by (simp add: apology_def)

lemma chat_returns_unless_raised_before:
  assumes "\<forall>n. \<exists>facts. query (vector_store self) msg n = Inr facts"
    and "\<forall>r. extract_and_calculate ast_parse fl msg = Some r \<longrightarrow>
             (\<exists>s. format_calculator_response fl r True = Inr s)"
  shows "\<exists>s. returned (chat ast_parse fl self ev msg) = Inr s"
proof (cases "extract_and_calculate ast_parse fl msg")
  case (Some r)
  with assms(2) obtain s where "format_calculator_response fl r True = Inr s" by blast
  from chat_calculation[OF Some this, of self ev] show ?thesis by simp
next
  case None
  show ?thesis
  proof (cases "model self")
    case md: None
    from assms obtain facts where "query (vector_store self) msg 1 = Inr facts" by blast
    from chat_offline_returns[OF None md this, of ev] show ?thesis by (simp add: Let_def)
  next
    case md: (Some generate)
    from assms obtain facts where "query (vector_store self) msg 2 = Inr facts" by blast
    from build_context_prompt_returns[OF this, of "user_turn (memory self) ev msg"]
    obtain prompt where
      p: "build_context_prompt (vector_store self) (user_turn (memory self) ev msg) msg = Inr prompt"
      by blast
    show ?thesis
    proof (cases "generate prompt")
      case (Inl e)
      from chat_backend_failed[OF None md p Inl] show ?thesis by simp
    next
      case (Inr answer)
      from chat_backend_answered[OF None md p Inr] show ?thesis by simp
    qed
  qed
qed

text \<open>
  Claim C7 (amended). When the backend call raises, \<^verbatim>\<open>chat\<close> returns the apology of
  the exception: one fixed string for Unauthenticated, another for ResourceExhausted, and
  for any other exception a third that ends with its message; the three are pairwise
  different. The failure does not leave \<^verbatim>\<open>chat\<close>: whatever the backend does,
  \<^verbatim>\<open>chat\<close> returns a string whenever nothing raised before the backend call, that is
  when the retrieval does not raise and the result of a calculation can be formatted.
\<close>

theorem chat_backend_failure:
  "(extract_and_calculate ast_parse fl msg = None \<and> model self = Some generate
      \<and> build_context_prompt (vector_store self) (user_turn (memory self) ev msg) msg = Inr prompt
      \<and> generate prompt = Inl e \<longrightarrow>
      returned (chat ast_parse fl self ev msg) = Inr (apology e))
   \<and> (exc_class e = Unauthenticated \<longrightarrow>
        apology e = ''Arr! The Google guards blocked me. Check yer API key, savvy?'')
   \<and> (exc_class e = ResourceExhausted \<longrightarrow>
        apology e = ''Blimey! I'' @ [CHR 0x27]
          @ ''ve talked too much. Need a moment to catch me breath (Quota exceeded).'')
   \<and> (exc_class e \<noteq> Unauthenticated \<and> exc_class e \<noteq> ResourceExhausted \<longrightarrow>
        apology e = ''Curse the black spot! Something went wrong: '' @ exc_msg e)
   \<and> (\<forall>a b c. exc_class a = Unauthenticated \<and> exc_class b = ResourceExhausted
         \<and> exc_class c \<noteq> Unauthenticated \<and> exc_class c \<noteq> ResourceExhausted \<longrightarrow>
         apology a \<noteq> apology b \<and> apology a \<noteq> apology c \<and> apology b \<noteq> apology c)
   \<and> ((\<forall>n. \<exists>facts. query (vector_store self) msg n = Inr facts)
        \<and> (\<forall>r. extract_and_calculate ast_parse fl msg = Some r \<longrightarrow>
               (\<exists>s. format_calculator_response fl r True = Inr s)) \<longrightarrow>
        (\<exists>s. returned (chat ast_parse fl self ev msg) = Inr s))"
proof -
  have 1: "extract_and_calculate ast_parse fl msg = None \<and> model self = Some generate
      \<and> build_context_prompt (vector_store self) (user_turn (memory self) ev msg) msg = Inr prompt
      \<and> generate prompt = Inl e \<longrightarrow>
      returned (chat ast_parse fl self ev msg) = Inr (apology e)"
    using chat_backend_failed[of ast_parse fl msg self generate ev prompt e] by simp
  have 2: "exc_class e = Unauthenticated \<longrightarrow>
        apology e = ''Arr! The Google guards blocked me. Check yer API key, savvy?''"
    by (simp add: apology_def)
  have 3: "exc_class e = ResourceExhausted \<longrightarrow>
        apology e = ''Blimey! I'' @ [CHR 0x27]
          @ ''ve talked too much. Need a moment to catch me breath (Quota exceeded).''"
    by (simp add: apology_def)
  have 4: "exc_class e \<noteq> Unauthenticated \<and> exc_class e \<noteq> ResourceExhausted \<longrightarrow>
        apology e = ''Curse the black spot! Something went wrong: '' @ exc_msg e"
    by (simp add: apology_def)
  have 5: "\<forall>a b c. exc_class a = Unauthenticated \<and> exc_class b = ResourceExhausted
         \<and> exc_class c \<noteq> Unauthenticated \<and> exc_class c \<noteq> ResourceExhausted \<longrightarrow>
         apology a \<noteq> apology b \<and> apology a \<noteq> apology c \<and> apology b \<noteq> apology c"
    using apology_distinct by blast
  have 6: "(\<forall>n. \<exists>facts. query (vector_store self) msg n = Inr facts)
        \<and> (\<forall>r. extract_and_calculate ast_parse fl msg = Some r \<longrightarrow>
               (\<exists>s. format_calculator_response fl r True = Inr s)) \<longrightarrow>
        (\<exists>s. returned (chat ast_parse fl self ev msg) = Inr s)"
  proof (intro impI)
    assume a: "(\<forall>n. \<exists>facts. query (vector_store self) msg n = Inr facts)
        \<and> (\<forall>r. extract_and_calculate ast_parse fl msg = Some r \<longrightarrow>
               (\<exists>s. format_calculator_response fl r True = Inr s))"
    show "\<exists>s. returned (chat ast_parse fl self ev msg) = Inr s"
      by (rule chat_returns_unless_raised_before) (use a in blast)+
  qed
  show ?thesis using 1 2 3 4 5 6 by (intro conjI)
qed

text \<open>
  The theorem at \<^verbatim>\<open>Who are you?\<close> with a backend that raises ResourceExhausted.
\<close>

theorem chat_backend_failure_witness:
  "extract_and_calculate (py_parse exact_arith) exact_arith ''Who are you?'' = None
   \<and> model (SparrowBot (Some quota_backend) empty_store) = Some quota_backend
   \<and> build_context_prompt (vector_store (SparrowBot (Some quota_backend) empty_store))
        (user_turn (memory (SparrowBot (Some quota_backend) empty_store)) sample_env ''Who are you?'')
        ''Who are you?''
      = Inr ([CHR 0x0A] @ ''Current user message: Who are you?'')
   \<and> quota_backend ([CHR 0x0A] @ ''Current user message: Who are you?'')
      = Inl (PyExc ResourceExhausted ''429 Quota exceeded'')
   \<and> returned (chat (py_parse exact_arith) exact_arith (SparrowBot (Some quota_backend) empty_store)
                 sample_env ''Who are you?'')
      = Inr (''Blimey! I'' @ [CHR 0x27]
             @ ''ve talked too much. Need a moment to catch me breath (Quota exceeded).'')"
proof -
  let ?msg = "''Who are you?''"
  let ?b = "SparrowBot (Some quota_backend) empty_store"
  let ?p = "[CHR 0x0A] @ ''Current user message: Who are you?''"
  have x: "extract_and_calculate (py_parse exact_arith) exact_arith ?msg = None"
    by code_simp
  have md: "model ?b = Some quota_backend"
    by (simp add: SparrowBot_def)
  have p: "build_context_prompt (vector_store ?b) (user_turn (memory ?b) sample_env ?msg) ?msg = Inr ?p"
    by code_simp
  have g: "quota_backend ?p = Inl (PyExc ResourceExhausted ''429 Quota exceeded'')"
    by (simp add: quota_backend_def)
  have a: "apology (PyExc ResourceExhausted ''429 Quota exceeded'')
           = ''Blimey! I'' @ [CHR 0x27]
             @ ''ve talked too much. Need a moment to catch me breath (Quota exceeded).''"
    by (simp add: apology_def)
  have "returned (chat (py_parse exact_arith) exact_arith ?b sample_env ?msg)
        = Inr (apology (PyExc ResourceExhausted ''429 Quota exceeded''))"
    using chat_backend_failure
            [of "py_parse exact_arith" exact_arith ?msg ?b quota_backend sample_env ?p
                "PyExc ResourceExhausted ''429 Quota exceeded''", THEN conjunct1]
          x md p g
    by blast
  then show ?thesis
    using x md p g unfolding a by (intro conjI)
qed

text \<open>
  Claim C7 as stated fails: \<^verbatim>\<open>chat\<close> does not return a string for every message.
  With a backend configured, \<^verbatim>\<open>Please calculate 10 ^ 4300\<close> raises the ValueError of
  formatting the result, and \<^verbatim>\<open>Tell me about the Black Pearl\<close> raises the exception
  of an embedding model that fails; neither reaches the backend call.
\<close>

theorem chat_raises_before_backend_call:
  "returned (chat (py_parse exact_arith) exact_arith (SparrowBot (Some quota_backend) pearl_store)
               sample_env ''Please calculate 10 ^ 4300'')
     = Inl (PyExc ValueError
              (''Exceeds the limit (4300 digits) for integer string conversion; ''
               @ ''use sys.set_int_max_str_digits() to increase the limit''))
   \<and> calls (chat (py_parse exact_arith) exact_arith (SparrowBot (Some quota_backend) pearl_store)
               sample_env ''Please calculate 10 ^ 4300'')
     = []
   \<and> chat (py_parse exact_arith) exact_arith (SparrowBot (Some quota_backend) failing_store)
        sample_env ''Tell me about the Black Pearl''
     = \<lparr>returned = Inl (PyExc (OtherException ''RuntimeError'') ''embedding model unavailable''),
        memory_after =
          \<lparr>max_turns = 10,
           conversation_history =
             [\<lparr>role = ''user'', content = ''Tell me about the Black Pearl'',
               timestamp = ''2024-01-01T10:00:00''\<rparr>]\<rparr>,
        calls = [Retrieval ''Tell me about the Black Pearl'' 2]\<rparr>"
proof -
  have g: "re_search (patterns ! 0) (lower ''Please calculate 10 ^ 4300'') = Some ''10 ^ 4300''"
    by code_simp
  note c = chat_calculation_raises[OF extract_power[OF g] format_power,
             of "SparrowBot (Some quota_backend) pearl_store" sample_env]
  have 1: "returned (chat (py_parse exact_arith) exact_arith
                       (SparrowBot (Some quota_backend) pearl_store)
                       sample_env ''Please calculate 10 ^ 4300'')
     = Inl (PyExc ValueError
              (''Exceeds the limit (4300 digits) for integer string conversion; ''
               @ ''use sys.set_int_max_str_digits() to increase the limit''))"
    unfolding c by simp
  have 2: "calls (chat (py_parse exact_arith) exact_arith
                    (SparrowBot (Some quota_backend) pearl_store)
                    sample_env ''Please calculate 10 ^ 4300'')
     = []"
    unfolding c by simp
  have 3: "chat (py_parse exact_arith) exact_arith (SparrowBot (Some quota_backend) failing_store)
        sample_env ''Tell me about the Black Pearl''
     = \<lparr>returned = Inl (PyExc (OtherException ''RuntimeError'') ''embedding model unavailable''),
        memory_after =
          \<lparr>max_turns = 10,
           conversation_history =
             [\<lparr>role = ''user'', content = ''Tell me about the Black Pearl'',
               timestamp = ''2024-01-01T10:00:00''\<rparr>]\<rparr>,
        calls = [Retrieval ''Tell me about the Black Pearl'' 2]\<rparr>"
    by code_simp
  show ?thesis using 1 2 3 by (intro conjI)
qed

text \<open>
  Claim C10. When the backend call raises, \<^verbatim>\<open>chat\<close> returns the apology and the memory
  is the memory with the user message added: no assistant message is appended, and the user
  message is its last entry. Every other string \<^verbatim>\<open>chat\<close> returns (on the calculator
  path, in offline mode, after a backend answer) is exactly the content of the assistant
  message appended to the memory, which is then its last entry.
\<close>

theorem chat_reply_and_memory:
  "(extract_and_calculate ast_parse fl msg = None \<and> model self = Some generate
      \<and> build_context_prompt (vector_store self) (user_turn (memory self) ev msg) msg = Inr prompt
      \<and> generate prompt = Inl e \<longrightarrow>
      returned (chat ast_parse fl self ev msg) = Inr (apology e)
      \<and> memory_after (chat ast_parse fl self ev msg) = user_turn (memory self) ev msg
      \<and> (0 < max_turns (memory self) \<longrightarrow>
           last (conversation_history (memory_after (chat ast_parse fl self ev msg)))
             = \<lparr>role = ''user'', content = msg, timestamp = now_user ev\<rparr>))
   \<and> (\<forall>s. returned (chat ast_parse fl self ev msg) = Inr s
         \<and> \<not> (\<exists>generate prompt e.
                extract_and_calculate ast_parse fl msg = None \<and> model self = Some generate
                \<and> build_context_prompt (vector_store self) (user_turn (memory self) ev msg) msg
                    = Inr prompt
                \<and> generate prompt = Inl e) \<longrightarrow>
         memory_after (chat ast_parse fl self ev msg)
           = add_message (user_turn (memory self) ev msg) ''assistant'' s (now_reply ev)
         \<and> (0 < max_turns (memory self) \<longrightarrow>
              last (conversation_history (memory_after (chat ast_parse fl self ev msg)))
                = \<lparr>role = ''assistant'', content = s, timestamp = now_reply ev\<rparr>))"
proof -
  have um: "max_turns (user_turn (memory self) ev msg) = max_turns (memory self)"
    by (simp add: user_turn_def)
  have failed: "extract_and_calculate ast_parse fl msg = None \<and> model self = Some generate
      \<and> build_context_prompt (vector_store self) (user_turn (memory self) ev msg) msg = Inr prompt
      \<and> generate prompt = Inl e \<longrightarrow>
      returned (chat ast_parse fl self ev msg) = Inr (apology e)
      \<and> memory_after (chat ast_parse fl self ev msg) = user_turn (memory self) ev msg
      \<and> (0 < max_turns (memory self) \<longrightarrow>
           last (conversation_history (memory_after (chat ast_parse fl self ev msg)))
             = \<lparr>role = ''user'', content = msg, timestamp = now_user ev\<rparr>)"
  proof (intro impI)
    assume a: "extract_and_calculate ast_parse fl msg = None \<and> model self = Some generate
      \<and> build_context_prompt (vector_store self) (user_turn (memory self) ev msg) msg = Inr prompt
      \<and> generate prompt = Inl e"
    then have c: "chat ast_parse fl self ev msg =
         \<lparr>returned = Inr (apology e), memory_after = user_turn (memory self) ev msg,
          calls = [Retrieval msg 2, Generate prompt]\<rparr>"
      using chat_backend_failed[of ast_parse fl msg self generate ev prompt e] by simp
    have "0 < max_turns (memory self) \<longrightarrow>
           last (conversation_history (user_turn (memory self) ev msg))
             = \<lparr>role = ''user'', content = msg, timestamp = now_user ev\<rparr>"
      using add_message_last[of "memory self" "''user''" msg "now_user ev"]
      by (simp add: user_turn_def)
    with c show "returned (chat ast_parse fl self ev msg) = Inr (apology e)
      \<and> memory_after (chat ast_parse fl self ev msg) = user_turn (memory self) ev msg
      \<and> (0 < max_turns (memory self) \<longrightarrow>
           last (conversation_history (memory_after (chat ast_parse fl self ev msg)))
             = \<lparr>role = ''user'', content = msg, timestamp = now_user ev\<rparr>)"
      by simp
  qed
  have replied: "\<forall>s. returned (chat ast_parse fl self ev msg) = Inr s
         \<and> \<not> (\<exists>generate prompt e.
                extract_and_calculate ast_parse fl msg = None \<and> model self = Some generate
                \<and> build_context_prompt (vector_store self) (user_turn (memory self) ev msg) msg
                    = Inr prompt
                \<and> generate prompt = Inl e) \<longrightarrow>
         memory_after (chat ast_parse fl self ev msg)
           = add_message (user_turn (memory self) ev msg) ''assistant'' s (now_reply ev)
         \<and> (0 < max_turns (memory self) \<longrightarrow>
              last (conversation_history (memory_after (chat ast_parse fl self ev msg)))
                = \<lparr>role = ''assistant'', content = s, timestamp = now_reply ev\<rparr>)"
  proof (intro allI impI)
    fix s
    assume a: "returned (chat ast_parse fl self ev msg) = Inr s
         \<and> \<not> (\<exists>generate prompt e.
                extract_and_calculate ast_parse fl msg = None \<and> model self = Some generate
                \<and> build_context_prompt (vector_store self) (user_turn (memory self) ev msg) msg
                    = Inr prompt
                \<and> generate prompt = Inl e)"
    then have s: "returned (chat ast_parse fl self ev msg) = Inr s" by simp
    have m: "memory_after (chat ast_parse fl self ev msg)
           = add_message (user_turn (memory self) ev msg) ''assistant'' s (now_reply ev)"
    proof (cases "extract_and_calculate ast_parse fl msg")
      case (Some r)
      show ?thesis
      proof (cases "format_calculator_response fl r True")
        case (Inl e)
        from chat_calculation_raises[OF Some Inl, of self ev] s show ?thesis by simp
      next
        case (Inr s')
        from chat_calculation[OF Some Inr, of self ev] s show ?thesis
          by (simp add: user_turn_def)
      qed
    next
      case None
      show ?thesis
      proof (cases "model self")
        case md: None
        show ?thesis
        proof (cases "query (vector_store self) msg 1")
          case (Inl e)
          from chat_offline_raises[OF None md Inl, of ev] s show ?thesis by simp
        next
          case (Inr facts)
          from chat_offline_returns[OF None md Inr, of ev] s show ?thesis
            by (auto simp: Let_def)
        qed
      next
        case md: (Some generate)
        show ?thesis
        proof (cases "build_context_prompt (vector_store self) (user_turn (memory self) ev msg) msg")
          case (Inl e)
          from chat_backend_raises[OF None md Inl] s show ?thesis by simp
        next
          case (Inr prompt)
          show ?thesis
          proof (cases "generate prompt")
            case gl: (Inl e)
            with a None md Inr show ?thesis by blast
          next
            case gr: (Inr answer)
            from chat_backend_answered[OF None md Inr gr] s show ?thesis by simp
          qed
        qed
      qed
    qed
    have "0 < max_turns (memory self) \<longrightarrow>
              last (conversation_history
                      (add_message (user_turn (memory self) ev msg) ''assistant'' s (now_reply ev)))
                = \<lparr>role = ''assistant'', content = s, timestamp = now_reply ev\<rparr>"
      using add_message_last[of "user_turn (memory self) ev msg" "''assistant''" s "now_reply ev"] um
      by simp
    with m show "memory_after (chat ast_parse fl self ev msg)
           = add_message (user_turn (memory self) ev msg) ''assistant'' s (now_reply ev)
         \<and> (0 < max_turns (memory self) \<longrightarrow>
              last (conversation_history (memory_after (chat ast_parse fl self ev msg)))
                = \<lparr>role = ''assistant'', content = s, timestamp = now_reply ev\<rparr>)"
      by simp
  qed
  show ?thesis using failed replied by (intro conjI)
qed

text \<open>
  The theorem at \<^verbatim>\<open>Ahoy!\<close> with a backend that raises ResourceExhausted.
\<close>

theorem chat_reply_and_memory_witness:
  "0 < max_turns (memory (SparrowBot (Some quota_backend) pearl_store))
   \<and> returned (chat (py_parse exact_arith) exact_arith (SparrowBot (Some quota_backend) pearl_store)
                 sample_env ''Ahoy!'')
      = Inr (''Blimey! I'' @ [CHR 0x27]
             @ ''ve talked too much. Need a moment to catch me breath (Quota exceeded).'')
   \<and> memory_after (chat (py_parse exact_arith) exact_arith
                     (SparrowBot (Some quota_backend) pearl_store) sample_env ''Ahoy!'')
      = \<lparr>max_turns = 10,
         conversation_history =
           [\<lparr>role = ''user'', content = ''Ahoy!'', timestamp = ''2024-01-01T10:00:00''\<rparr>]\<rparr>
   \<and> last (conversation_history
             (memory_after (chat (py_parse exact_arith) exact_arith
                              (SparrowBot (Some quota_backend) pearl_store) sample_env ''Ahoy!'')))
      = \<lparr>role = ''user'', content = ''Ahoy!'', timestamp = now_user sample_env\<rparr>"
proof -
  let ?msg = "''Ahoy!''"
  let ?b = "SparrowBot (Some quota_backend) pearl_store"
  let ?e = "PyExc ResourceExhausted ''429 Quota exceeded''"
  have x: "extract_and_calculate (py_parse exact_arith) exact_arith ?msg = None"
    by code_simp
  have md: "model ?b = Some quota_backend"
    by (simp add: SparrowBot_def)
  have mt: "0 < max_turns (memory ?b)"
    by (simp add: SparrowBot_def Memory_def)
  have "query (vector_store ?b) ?msg 2
        = Inr [''The Black Pearl is the fastest ship in the Caribbean.'',
               ''Jack Sparrow is the captain of the Black Pearl.'']"
    by code_simp
  from build_context_prompt_returns[OF this, of "user_turn (memory ?b) sample_env ?msg"]
  obtain prompt where
    p: "build_context_prompt (vector_store ?b) (user_turn (memory ?b) sample_env ?msg) ?msg
        = Inr prompt"
    by blast
  have g: "quota_backend prompt = Inl ?e"
    by (simp add: quota_backend_def)
  have a: "apology ?e = ''Blimey! I'' @ [CHR 0x27]
             @ ''ve talked too much. Need a moment to catch me breath (Quota exceeded).''"
    by (simp add: apology_def)
  have u: "user_turn (memory ?b) sample_env ?msg
           = \<lparr>max_turns = 10,
              conversation_history =
                [\<lparr>role = ''user'', content = ''Ahoy!'', timestamp = ''2024-01-01T10:00:00''\<rparr>]\<rparr>"
    by code_simp
  from chat_reply_and_memory
         [of "py_parse exact_arith" exact_arith ?msg ?b quota_backend sample_env prompt ?e,
          THEN conjunct1] x md p g
  have "returned (chat (py_parse exact_arith) exact_arith ?b sample_env ?msg) = Inr (apology ?e)
      \<and> memory_after (chat (py_parse exact_arith) exact_arith ?b sample_env ?msg)
          = user_turn (memory ?b) sample_env ?msg
      \<and> (0 < max_turns (memory ?b) \<longrightarrow>
           last (conversation_history
                   (memory_after (chat (py_parse exact_arith) exact_arith ?b sample_env ?msg)))
             = \<lparr>role = ''user'', content = ?msg, timestamp = now_user sample_env\<rparr>)"
    by blast
  with mt show ?thesis
    unfolding a u by (simp add: sample_env_def)
qed

text \<open>
  Claim C6 (amended). A query of the index returns the empty list when the collection
  answers no documents (an empty index), and raises exactly when the embedding model or the
  collection raises. \<^verbatim>\<open>chat\<close> has no handler around the retrieval: in offline mode and
  before the backend call an exception of the query leaves \<^verbatim>\<open>chat\<close> as it is, with only
  the user message recorded. The calculator path makes no query, and the exceptions of the
  backend call are the ones turned into a string.
\<close>

theorem retrieval_errors_propagate:
  "(\<forall>v. encode vs q = Inr v
        \<and> collection_query vs v n \<in> {Inr NoResult, Inr (QueryResult None),
                                     Inr (QueryResult (Some [])), Inr (QueryResult (Some [[]]))} \<longrightarrow>
        query vs q n = Inr [])
   \<and> (\<forall>e. query vs q n = Inl e \<longleftrightarrow>
          (encode vs q = Inl e \<or> (\<exists>v. encode vs q = Inr v \<and> collection_query vs v n = Inl e)))
   \<and> (\<forall>e. extract_and_calculate ast_parse fl msg = None \<and> model self = None
          \<and> query (vector_store self) msg 1 = Inl e \<longrightarrow>
          chat ast_parse fl self ev msg
            = \<lparr>returned = Inl e, memory_after = user_turn (memory self) ev msg,
               calls = [Retrieval msg 1]\<rparr>)
   \<and> (\<forall>e generate. extract_and_calculate ast_parse fl msg = None \<and> model self = Some generate
          \<and> query (vector_store self) msg 2 = Inl e \<longrightarrow>
          chat ast_parse fl self ev msg
            = \<lparr>returned = Inl e, memory_after = user_turn (memory self) ev msg,
               calls = [Retrieval msg 2]\<rparr>)
   \<and> (\<forall>r. extract_and_calculate ast_parse fl msg = Some r \<longrightarrow>
          calls (chat ast_parse fl self ev msg) = [])
   \<and> (\<forall>generate prompt e. extract_and_calculate ast_parse fl msg = None
          \<and> model self = Some generate
          \<and> build_context_prompt (vector_store self) (user_turn (memory self) ev msg) msg = Inr prompt
          \<and> generate prompt = Inl e \<longrightarrow>
          returned (chat ast_parse fl self ev msg) = Inr (apology e))"
proof -
  have 1: "\<forall>v. encode vs q = Inr v
        \<and> collection_query vs v n \<in> {Inr NoResult, Inr (QueryResult None),
                                     Inr (QueryResult (Some [])), Inr (QueryResult (Some [[]]))} \<longrightarrow>
        query vs q n = Inr []"
    by (auto simp: query_def)
  have 2: "\<forall>e. query vs q n = Inl e \<longleftrightarrow>
          (encode vs q = Inl e \<or> (\<exists>v. encode vs q = Inr v \<and> collection_query vs v n = Inl e))"
    using query_raises by blast
  have 3: "\<forall>e. extract_and_calculate ast_parse fl msg = None \<and> model self = None
          \<and> query (vector_store self) msg 1 = Inl e \<longrightarrow>
          chat ast_parse fl self ev msg
            = \<lparr>returned = Inl e, memory_after = user_turn (memory self) ev msg,
               calls = [Retrieval msg 1]\<rparr>"
    using chat_offline_raises by blast
  have 4: "\<forall>e generate. extract_and_calculate ast_parse fl msg = None \<and> model self = Some generate
          \<and> query (vector_store self) msg 2 = Inl e \<longrightarrow>
          chat ast_parse fl self ev msg
            = \<lparr>returned = Inl e, memory_after = user_turn (memory self) ev msg,
               calls = [Retrieval msg 2]\<rparr>"
    using chat_backend_raises build_context_prompt_raises by blast
  have 5: "\<forall>r. extract_and_calculate ast_parse fl msg = Some r \<longrightarrow>
          calls (chat ast_parse fl self ev msg) = []"
    using chat_calculation_calls by blast
  have 6: "\<forall>generate prompt e. extract_and_calculate ast_parse fl msg = None
          \<and> model self = Some generate
          \<and> build_context_prompt (vector_store self) (user_turn (memory self) ev msg) msg = Inr prompt
          \<and> generate prompt = Inl e \<longrightarrow>
          returned (chat ast_parse fl self ev msg) = Inr (apology e)"
  proof (intro allI impI)
    fix generate prompt e
    assume "extract_and_calculate ast_parse fl msg = None
          \<and> model self = Some generate
          \<and> build_context_prompt (vector_store self) (user_turn (memory self) ev msg) msg = Inr prompt
          \<and> generate prompt = Inl e"
    then show "returned (chat ast_parse fl self ev msg) = Inr (apology e)"
      using chat_backend_failed[of ast_parse fl msg self generate ev prompt e] by simp
  qed
  show ?thesis using 1 2 3 4 5 6 by (intro conjI)
qed

text \<open>
  The theorem at an empty index and at \<^verbatim>\<open>Where is the rum?\<close> with an index that
  raises.
\<close>

theorem retrieval_errors_propagate_witness:
  "encode empty_store ''rum'' = Inr ()
   \<and> collection_query empty_store () 3 = Inr (QueryResult (Some [[]]))
   \<and> query empty_store ''rum'' 3 = Inr []
   \<and> extract_and_calculate (py_parse exact_arith) exact_arith ''Where is the rum?'' = None
   \<and> model (SparrowBot (Some echo_backend) failing_store) = Some echo_backend
   \<and> query (vector_store (SparrowBot (Some echo_backend) failing_store)) ''Where is the rum?'' 2
      = Inl (PyExc (OtherException ''RuntimeError'') ''embedding model unavailable'')
   \<and> chat (py_parse exact_arith) exact_arith (SparrowBot (Some echo_backend) failing_store)
        sample_env ''Where is the rum?''
      = \<lparr>returned = Inl (PyExc (OtherException ''RuntimeError'') ''embedding model unavailable''),
         memory_after =
           user_turn (memory (SparrowBot (Some echo_backend) failing_store)) sample_env
             ''Where is the rum?'',
         calls = [Retrieval ''Where is the rum?'' 2]\<rparr>"
proof -
  let ?msg = "''Where is the rum?''"
  let ?b = "SparrowBot (Some echo_backend) failing_store"
  let ?e = "PyExc (OtherException ''RuntimeError'') ''embedding model unavailable''"
  have en: "encode empty_store ''rum'' = Inr ()"
    by (simp add: empty_store_def)
  have cq: "collection_query empty_store () 3 = Inr (QueryResult (Some [[]]))"
    by (simp add: empty_store_def)
  have q0: "query empty_store ''rum'' 3 = Inr []"
    using retrieval_errors_propagate
            [of empty_store "''rum''" 3 "py_parse exact_arith" exact_arith ?msg ?b sample_env,
             THEN conjunct1] en cq
    by simp
  have x: "extract_and_calculate (py_parse exact_arith) exact_arith ?msg = None"
    by code_simp
  have md: "model ?b = Some echo_backend"
    by (simp add: SparrowBot_def)
  have q: "query (vector_store ?b) ?msg 2 = Inl ?e"
    by (simp add: SparrowBot_def failing_store_def query_def)
  have "chat (py_parse exact_arith) exact_arith ?b sample_env ?msg
      = \<lparr>returned = Inl ?e, memory_after = user_turn (memory ?b) sample_env ?msg,
         calls = [Retrieval ?msg 2]\<rparr>"
    using retrieval_errors_propagate
            [of empty_store "''rum''" 3 "py_parse exact_arith" exact_arith ?msg ?b sample_env,
             THEN conjunct2, THEN conjunct2, THEN conjunct2, THEN conjunct1] x md q
    by blast
  with en cq q0 x md q show ?thesis by (intro conjI)
qed

text \<open>
  Claim C6 as stated fails: with an embedding model that raises, \<^verbatim>\<open>chat\<close> does not
  return a string for \<^verbatim>\<open>Who are you?\<close>, in offline mode or with a backend; the
  exception reaches the caller.
\<close>

theorem retrieval_error_escapes_chat:
  "extract_and_calculate (py_parse exact_arith) exact_arith ''Who are you?'' = None
   \<and> query failing_store ''Who are you?'' 1
      = Inl (PyExc (OtherException ''RuntimeError'') ''embedding model unavailable'')
   \<and> returned (chat (py_parse exact_arith) exact_arith (SparrowBot None failing_store)
                 sample_env ''Who are you?'')
      = Inl (PyExc (OtherException ''RuntimeError'') ''embedding model unavailable'')
   \<and> returned (chat (py_parse exact_arith) exact_arith (SparrowBot (Some echo_backend) failing_store)
                 sample_env ''Who are you?'')
      = Inl (PyExc (OtherException ''RuntimeError'') ''embedding model unavailable'')"
proof -
  have 1: "extract_and_calculate (py_parse exact_arith) exact_arith ''Who are you?'' = None"
    by code_simp
  have 2: "query failing_store ''Who are you?'' 1
      = Inl (PyExc (OtherException ''RuntimeError'') ''embedding model unavailable'')"
    by code_simp
  have 3: "returned (chat (py_parse exact_arith) exact_arith (SparrowBot None failing_store)
                 sample_env ''Who are you?'')
      = Inl (PyExc (OtherException ''RuntimeError'') ''embedding model unavailable'')"
    by code_simp
  have 4: "returned (chat (py_parse exact_arith) exact_arith
                       (SparrowBot (Some echo_backend) failing_store) sample_env ''Who are you?'')
      = Inl (PyExc (OtherException ''RuntimeError'') ''embedding model unavailable'')"
    by code_simp
  show ?thesis using 1 2 3 4 by (intro conjI)
qed

end
